theory Spec2Isabelle
  imports Main "HOL-Library.Sublist"
begin

section \<open>The New-Repo-Task script (New-Repo-Task/index.ts)\<close>

text \<open>
  The script scaffolds a new repository from a template repository: it reads its input
  from the process environment (\<open>getInput\<close>), lists and fetches the template files
  (\<open>getTemplateFiles\<close>), renders each one (\<open>renderFileData\<close>, \<open>getNewFilename\<close>) and
  writes the results into the new repository (the top-level block of the module).

  Strings are \<open>char list\<close>s. The script only ever compares, concatenates, splits and
  lower-cases them, so a string is modelled by its sequence of characters.
\<close>

subsection \<open>String primitives of the JavaScript runtime\<close>

text \<open>\<open>String.prototype.endsWith\<close> and \<open>String.prototype.startsWith\<close>.\<close>

definition endsWith :: "string \<Rightarrow> string \<Rightarrow> bool" where
  "endsWith s suf = suffix suf s"

definition startsWith :: "string \<Rightarrow> string \<Rightarrow> bool" where
  "startsWith s pre = prefix pre s"

text \<open>
  \<open>String.prototype.toLowerCase\<close>, on the letters \<open>A\<close> to \<open>Z\<close>; every other
  character is kept. (The template variants of the script, \<open>Bun\<close> and \<open>Elysia\<close>, are
  ASCII.)
\<close>

definition toLowerChar :: "char \<Rightarrow> char" where
  "toLowerChar c =
     (case map_of (zip ''ABCDEFGHIJKLMNOPQRSTUVWXYZ'' ''abcdefghijklmnopqrstuvwxyz'') c of
        Some d \<Rightarrow> d
      | None \<Rightarrow> c)"

definition toLowerCase :: "string \<Rightarrow> string" where
  "toLowerCase s = map toLowerChar s"

text \<open>
  \<open>s.split(sep)\<close> for a one-character separator: the pieces between the separators, so
  the empty string splits into one empty piece.
\<close>

fun split :: "char \<Rightarrow> string \<Rightarrow> string list" where
  "split sep [] = [[]]"
| "split sep (c # cs) =
     (if c = sep then [] # split sep cs
      else (case split sep cs of
              [] \<Rightarrow> [[c]]
            | w # ws \<Rightarrow> (c # w) # ws))"

text \<open>\<open>xs.join(sep)\<close>.\<close>

fun join :: "string \<Rightarrow> string list \<Rightarrow> string" where
  "join sep [] = []"
| "join sep [x] = x"
| "join sep (x # y # ys) = x @ sep @ join sep (y # ys)"

text \<open>A number in a template literal: its decimal digits.\<close>

definition digit :: "nat \<Rightarrow> char" where
  "digit d = ''0123456789'' ! d"

fun decimal :: "nat \<Rightarrow> string" where
  "decimal n = (if n < 10 then [digit n] else decimal (n div 10) @ [digit (n mod 10)])"

declare decimal.simps [simp del]

subsection \<open>The \<open>path\<close> module (POSIX flavour)\<close>

text \<open>
  The workflow runs the script on \<open>ubuntu-latest\<close>, where \<open>path\<close> is \<open>path.posix\<close>. The
  three functions the script calls are modelled after the runtime's implementation.

  \<open>path.basename(p)\<close> scans from the end: trailing separators are skipped, and the
  result is the run of characters up to the next separator (empty when the path has
  nothing but separators).
\<close>

definition isSep :: "char \<Rightarrow> bool" where
  "isSep c = (c = CHR ''/'')"

definition basename :: "string \<Rightarrow> string" where
  "basename p = rev (takeWhile (\<lambda>c. \<not> isSep c) (dropWhile isSep (rev p)))"

text \<open>
  \<open>path.dirname(p)\<close> scans the characters after the first from the end: it skips
  trailing separators, then the last component, and cuts the path before the separator
  it stops at. With no such separator the result is \<open>/\<close> for a path that starts with a
  separator and \<open>.\<close> otherwise; a cut after the first character of a rooted path gives
  \<open>//\<close>.
\<close>

definition dirname :: "string \<Rightarrow> string" where
  "dirname p =
     (if p = [] then ''.''
      else
        let hasRoot = isSep (hd p);
            rest = dropWhile (\<lambda>c. \<not> isSep c) (dropWhile isSep (rev (tl p)));
            cut = length rest
        in if cut = 0 then (if hasRoot then ''/'' else ''.'')
           else if hasRoot \<and> cut = 1 then ''//''
           else take cut p)"

text \<open>
  \<open>path.normalize\<close>: the runtime's \<open>normalizeString\<close> walks the components between
  separators. An empty component and \<open>.\<close> are dropped; \<open>..\<close> removes the component
  before it, unless there is none or it is itself \<open>..\<close>, in which case \<open>..\<close> is kept
  when the path is relative (\<open>allowAboveRoot\<close>); any other component is kept. The
  components kept so far are held in reverse.
\<close>

definition normalizeStep :: "bool \<Rightarrow> string list \<Rightarrow> string \<Rightarrow> string list" where
  "normalizeStep allowAboveRoot res seg =
     (if seg = [] \<or> seg = ''.'' then res
      else if seg = ''..'' then
        (case res of
           [] \<Rightarrow> (if allowAboveRoot then [''..''] else [])
         | r # rs \<Rightarrow>
             (if r = ''..'' then (if allowAboveRoot then ''..'' # r # rs else r # rs)
              else rs))
      else seg # res)"

definition normalizeString :: "string \<Rightarrow> bool \<Rightarrow> string" where
  "normalizeString p allowAboveRoot =
     join ''/'' (rev (foldl (normalizeStep allowAboveRoot) [] (split CHR ''/'' p)))"

definition normalize :: "string \<Rightarrow> string" where
  "normalize p =
     (if p = [] then ''.''
      else
        let isAbsolute = isSep (hd p);
            trailingSeparator = isSep (last p);
            q = normalizeString p (\<not> isAbsolute)
        in if q = [] then
             (if isAbsolute then ''/'' else if trailingSeparator then ''./'' else ''.'')
           else (if isAbsolute then ''/'' else []) @ q @
                (if trailingSeparator then ''/'' else []))"

text \<open>
  \<open>path.join(...args)\<close>: the non-empty arguments joined by \<open>/\<close> and normalized; \<open>.\<close>
  when there is none.
\<close>

definition path_join :: "string list \<Rightarrow> string" where
  "path_join args =
     (case filter (\<lambda>a. a \<noteq> []) args of
        [] \<Rightarrow> ''.''
      | a # as \<Rightarrow> normalize (join ''/'' (a # as)))"

subsection \<open>Types\<close>

text \<open>
  A thrown value: \<open>Error msg\<close> is \<open>new Error(msg)\<close> of the script itself, \<open>TypeError\<close>
  the runtime's error on reading a property of \<open>undefined\<close>, and \<open>Thrown tag\<close> an
  exception raised inside a library call (Octokit's request error, the template
  engine's render error).
\<close>

datatype error = Error string | TypeError | Thrown string

text \<open>\<open>RepoTeam\<close>, and the \<open>RepoTeams\<close> table in the order of the source.\<close>

record RepoTeam =
  name :: string
  description :: string

definition RepoTeams :: "(string \<times> RepoTeam) list" where
  "RepoTeams =
     [(''Backend'',
        \<lparr>name = ''Backend'', description = ''The team responsible for backend services.''\<rparr>),
      (''Design'',
        \<lparr>name = ''Design'', description = ''The team responsible for design.''\<rparr>),
      (''DevOps'',
        \<lparr>name = ''DevOps'', description = ''The team responsible for DevOps.''\<rparr>),
      (''Frontend'',
        \<lparr>name = ''Frontend'', description = ''The team responsible for frontend services.''\<rparr>),
      (''Platform'',
        \<lparr>name = ''Platform'', description = ''The team responsible for the platform.''\<rparr>),
      (''QA'',
        \<lparr>name = ''QA'', description = ''The team responsible for QA.''\<rparr>)]"

text \<open>
  \<open>RepoTeams[key]\<close> is a property read on an object literal. The \<open>as RepoTeamName\<close> cast
  of the source is erased at run time, so the key is any string: an own key gives its
  team, a name that every object inherits from \<open>Object.prototype\<close> gives that inherited
  member, and any other key gives \<open>undefined\<close>.
\<close>

datatype team_value = Team RepoTeam | Inherited string | Undefined

definition ObjectPrototypeKeys :: "string list" where
  "ObjectPrototypeKeys =
     [''constructor'', ''__proto__'', ''hasOwnProperty'', ''isPrototypeOf'',
      ''propertyIsEnumerable'', ''toLocaleString'', ''toString'', ''valueOf'',
      ''__defineGetter__'', ''__defineSetter__'', ''__lookupGetter__'', ''__lookupSetter__'']"

definition RepoTeams_get :: "string \<Rightarrow> team_value" where
  "RepoTeams_get key =
     (case map_of RepoTeams key of
        Some team \<Rightarrow> Team team
      | None \<Rightarrow> if key \<in> set ObjectPrototypeKeys then Inherited key else Undefined)"

text \<open>
  \<open>UserInput\<close>. The fields typed \<open>RepoTeam\<close> and \<open>RepoType\<close> hold whatever \<open>getInput\<close>
  put there: a \<open>team_value\<close> and a string.
\<close>

record UserInput =
  repoName :: string
  repoTeam :: team_value
  repoType :: string
  repoOwner :: string
  repoTopics :: "string list option"
  repoDescription :: "string option"
  templateRepoName :: string

text \<open>\<open>RenderedTemplateFile\<close>.\<close>

record RenderedTemplateFile =
  path :: string
  content :: string

text \<open>
  \<open>GetContentsData\<close>, the payload of a content request, without its URL fields (the
  script never reads them). \<open>content\<close> is optional.
\<close>

datatype content_type = Dir | File | Submodule | Symlink

record GetContentsData =
  file_type :: content_type
  file_size :: nat
  file_name :: string
  file_path :: string
  file_content :: "string option"
  file_sha :: string

text \<open>An entry of the tree listing; Octokit types every field as optional.\<close>

record tree_node =
  node_path :: "string option"
  node_mode :: "string option"
  node_type :: "string option"
  node_sha :: "string option"

subsection \<open>Libraries and the outside world\<close>

text \<open>
  The libraries whose code is not part of the repository are parameters of the model:
  \<open>Buffer.from(s, 'base64').toString()\<close>, \<open>Buffer.from(s).toString('base64')\<close>,
  \<open>nj.renderString\<close> (which may throw) and the colour functions of picocolors. Each
  is taken as a function of the arguments the script passes to it.
\<close>

record libs =
  base64_decode :: "string \<Rightarrow> string"
  base64_encode :: "string \<Rightarrow> string"
  renderString :: "string \<Rightarrow> UserInput \<Rightarrow> error + string"
  cyan :: "string \<Rightarrow> string"
  red :: "string \<Rightarrow> string"

text \<open>
  The GitHub client \<open>gh\<close>: each operation answers a request with a thrown error or with
  a status (and data), and the answer is determined by the arguments of the request.
  The arguments are those the script passes, in the order it writes them:
  \<open>getTree repo owner\<close>, \<open>getContent repo owner path\<close>, \<open>createInOrg name org
  description\<close>, \<open>replaceAllTopics names repo owner\<close> and \<open>createOrUpdateFileContents
  message content path repo owner\<close>. A content request for the path of a blob is answered
  with one object.
\<close>

record Octokit =
  getTree :: "string \<Rightarrow> string \<Rightarrow> error + nat \<times> tree_node list"
  getContent :: "string \<Rightarrow> string \<Rightarrow> string \<Rightarrow> error + nat \<times> GetContentsData"
  createInOrg :: "string \<Rightarrow> string \<Rightarrow> string option \<Rightarrow> error + nat"
  replaceAllTopics :: "string list \<Rightarrow> string \<Rightarrow> string \<Rightarrow> error + nat"
  createOrUpdateFileContents ::
    "string \<Rightarrow> string \<Rightarrow> string \<Rightarrow> string \<Rightarrow> string \<Rightarrow> error + nat"

text \<open>
  What a run does to the outside: the lines it writes to the console (the method and
  the value passed to it) and the requests it sends (with the arguments above), both in
  the order they happen.
\<close>

datatype level = ConsoleDebug | ConsoleLog | ConsoleError

datatype js_value = Str string | StrList "string list" | Undef | Exn error

datatype api_call =
    GetTree string string
  | GetContent string string string
  | CreateInOrg string string "string option"
  | ReplaceAllTopics "string list" string string
  | CreateOrUpdateFileContents string string string string string

record world =
  console :: "(level \<times> js_value) list"
  calls :: "api_call list"

definition console_debug :: "js_value \<Rightarrow> world \<Rightarrow> world" where
  "console_debug v w = w\<lparr>console := console w @ [(ConsoleDebug, v)]\<rparr>"

definition console_log :: "js_value \<Rightarrow> world \<Rightarrow> world" where
  "console_log v w = w\<lparr>console := console w @ [(ConsoleLog, v)]\<rparr>"

definition console_error :: "js_value \<Rightarrow> world \<Rightarrow> world" where
  "console_error v w = w\<lparr>console := console w @ [(ConsoleError, v)]\<rparr>"

definition send :: "api_call \<Rightarrow> world \<Rightarrow> world" where
  "send c w = w\<lparr>calls := calls w @ [c]\<rparr>"

text \<open>The world at the start of a run.\<close>

definition emptyWorld :: world where
  "emptyWorld = \<lparr>console = [], calls = []\<rparr>"

text \<open>The process environment, and JavaScript's truthiness of an optional string.\<close>

type_synonym env = "string \<rightharpoonup> string"

definition truthy :: "string option \<Rightarrow> bool" where
  "truthy v = (case v of None \<Rightarrow> False | Some s \<Rightarrow> s \<noteq> [])"

text \<open>\<open>a || b\<close> on optional strings.\<close>

definition or_else :: "string option \<Rightarrow> string option \<Rightarrow> string option" where
  "or_else a b = (if truthy a then a else b)"

subsection \<open>\<open>getInput\<close>\<close>

text \<open>
  \<open>required v msg\<close> is \<open>if (!v) throw new Error(msg)\<close>: it rejects an unset and an
  empty variable. The team is looked up in the table with no further check.
\<close>

definition required :: "string option \<Rightarrow> string \<Rightarrow> error + string" where
  "required v msg =
     (case v of
        None \<Rightarrow> Inl (Error msg)
      | Some s \<Rightarrow> if s = [] then Inl (Error msg) else Inr s)"

definition getInput :: "env \<Rightarrow> error + UserInput" where
  "getInput env =
     (let templateRepoName' =
            (case or_else (env ''TEMPLATE_REPO_NAME'')
                    (Some ''Blog-GitHub-API-Automation-Template'') of
               Some s \<Rightarrow> s
             | None \<Rightarrow> [])
      in case required (env ''REPO_NAME'')
                ''REPO_NAME is a required environment variable.'' of
           Inl e \<Rightarrow> Inl e
         | Inr repoName' \<Rightarrow>
        (case required (env ''REPO_TEAM'')
                ''REPO_TEAM is a required environment variable.'' of
           Inl e \<Rightarrow> Inl e
         | Inr repoTeamName \<Rightarrow>
        (case required (env ''REPO_TYPE'')
                ''REPO_TYPE is a required environment variable.'' of
           Inl e \<Rightarrow> Inl e
         | Inr repoType' \<Rightarrow>
        (case required (or_else (env ''GITHUB_REPOSITORY_OWNER'') (env ''REPO_OWNER''))
                ''REPO_OWNER is a required environment variable.'' of
           Inl e \<Rightarrow> Inl e
         | Inr repoOwner' \<Rightarrow>
             let repoTopics' = map_option (split CHR '','') (env ''REPO_TOPICS'');
                 repoDescription' = env ''REPO_DESCRIPTION''
             in Inr \<lparr>repoName = repoName',
                     repoTeam = RepoTeams_get repoTeamName,
                     repoType = repoType',
                     repoOwner = repoOwner',
                     repoTopics = repoTopics',
                     repoDescription = repoDescription',
                     templateRepoName = templateRepoName'\<rparr>))))"

subsection \<open>\<open>getNewFilename\<close> and \<open>renderFileData\<close>\<close>

definition getNewFilename :: "string \<Rightarrow> string" where
  "getNewFilename filename =
     (if filename = ''README.njk'' then ''README.md''
      else if filename = ''package.njk'' then ''package.json''
      else filename)"

text \<open>
  \<open>if (file.content)\<close> is a truthiness test: an absent content and an empty one both
  take the \<open>else return undefined\<close> branch (\<open>None\<close> here). An exception of the template
  engine leaves the function as it was thrown.
\<close>

definition renderFileData ::
  "libs \<Rightarrow> GetContentsData \<Rightarrow> UserInput \<Rightarrow> world \<Rightarrow>
     (error + RenderedTemplateFile option) \<times> world" where
  "renderFileData L f input w =
     (case file_content f of
        None \<Rightarrow> (Inr None, w)
      | Some c \<Rightarrow>
          if c = [] then (Inr None, w)
          else
            let filename = basename (file_path f);
                fileDir = dirname (file_path f);
                w1 = console_debug (Str (''[renderFileData] Rendering file: '' @ filename)) w;
                w2 = console_debug (Str (''[renderFileData] File Directory: '' @ fileDir)) w1
            in if endsWith (file_path f) ''.njk'' then
                 let newFilename = getNewFilename filename;
                     fileContent = base64_decode L c
                 in (case renderString L fileContent input of
                       Inl e \<Rightarrow> (Inl e, w2)
                     | Inr renderedContent \<Rightarrow>
                         (Inr (Some \<lparr>path = path_join [fileDir, newFilename],
                                     content = renderedContent\<rparr>), w2))
               else
                 (Inr (Some \<lparr>path = file_path f, content = base64_decode L c\<rparr>), w2))"

subsection \<open>\<open>getTemplateFiles\<close>\<close>

text \<open>
  The test of the \<open>for\<close> loop on a tree node: a blob with a non-empty path under the
  lower-cased repository type.
\<close>

definition selected :: "UserInput \<Rightarrow> tree_node \<Rightarrow> bool" where
  "selected input treeNode =
     (node_type treeNode = Some ''blob'' \<and>
      truthy (node_path treeNode) \<and>
      (case node_path treeNode of
         None \<Rightarrow> False
       | Some p \<Rightarrow> startsWith p (toLowerCase (repoType input) @ ''/'')))"

text \<open>\<open>treeNode.path\<close>, read where the test has shown it to be a string.\<close>

definition nodePath :: "tree_node \<Rightarrow> string" where
  "nodePath treeNode = (case node_path treeNode of Some p \<Rightarrow> p | None \<Rightarrow> [])"

text \<open>
  The \<open>for (const treeNode of data.tree)\<close> loop, with \<open>renderedTemplateFiles\<close> as the
  accumulator. \<open>Inl\<close> is an exception on its way to the \<open>catch\<close>.
\<close>

fun forTreeNodes ::
  "libs \<Rightarrow> Octokit \<Rightarrow> UserInput \<Rightarrow> tree_node list \<Rightarrow> RenderedTemplateFile list \<Rightarrow>
     world \<Rightarrow> (error + RenderedTemplateFile list) \<times> world" where
  "forTreeNodes L gh input [] renderedTemplateFiles w = (Inr renderedTemplateFiles, w)"
| "forTreeNodes L gh input (treeNode # rest) renderedTemplateFiles w =
     (if selected input treeNode then
        let p = nodePath treeNode;
            w1 = send (GetContent (templateRepoName input) (repoOwner input) p) w
        in (case getContent gh (templateRepoName input) (repoOwner input) p of
              Inl e \<Rightarrow> (Inl e, w1)
            | Inr (status, data) \<Rightarrow>
                let w2 = console_debug
                           (Str (''[getTemplateFiles] Template File Content Status: '' @
                                 decimal status)) w1
                in if status \<noteq> 200 then
                     (Inl (Error (''Template file not found: '' @ p)), w2)
                   else
                     (case renderFileData L data input w2 of
                        (Inl e, w3) \<Rightarrow> (Inl e, w3)
                      | (Inr None, w3) \<Rightarrow>
                          forTreeNodes L gh input rest renderedTemplateFiles w3
                      | (Inr (Some renderedTemplateFile), w3) \<Rightarrow>
                          forTreeNodes L gh input rest
                            (renderedTemplateFiles @ [renderedTemplateFile]) w3))
      else forTreeNodes L gh input rest renderedTemplateFiles w)"

text \<open>The body of the \<open>try\<close>.\<close>

definition getTemplateFiles_try ::
  "libs \<Rightarrow> Octokit \<Rightarrow> UserInput \<Rightarrow> world \<Rightarrow> (error + RenderedTemplateFile list) \<times> world" where
  "getTemplateFiles_try L gh input w =
     (let w1 = send (GetTree (templateRepoName input) (repoOwner input)) w
      in (case getTree gh (templateRepoName input) (repoOwner input) of
            Inl e \<Rightarrow> (Inl e, w1)
          | Inr (status, tree) \<Rightarrow>
              if status \<noteq> 200 then (Inl (Error ''Template file tree(s) not found''), w1)
              else
                forTreeNodes L gh input tree []
                  (console_debug
                     (Str (''[getTemplateFiles] Template Files Tree Status: '' @ decimal status))
                     w1)))"

text \<open>The \<open>try\<close> with its \<open>catch\<close>: the function itself never throws.\<close>

definition getTemplateFiles ::
  "libs \<Rightarrow> Octokit \<Rightarrow> UserInput \<Rightarrow> world \<Rightarrow> RenderedTemplateFile list \<times> world" where
  "getTemplateFiles L gh input w =
     (case getTemplateFiles_try L gh input w of
        (Inr renderedTemplateFiles, w') \<Rightarrow> (renderedTemplateFiles, w')
      | (Inl e, w') \<Rightarrow>
          ([],
           console_error (Exn e)
             (console_error
                (Str ''[ERROR][getTemplateFiles] Error caught when getting template files:'')
                w')))"

subsection \<open>The top level of the module\<close>

text \<open>
  \<open>userInput.repoTeam.name\<close> in the first log message: reading \<open>name\<close> of \<open>undefined\<close>
  throws; an inherited member has the \<open>name\<close> of that function (the getter
  \<open>__proto__\<close> yields the prototype object, which has none).
\<close>

definition repoTeam_name :: "team_value \<Rightarrow> error + string option" where
  "repoTeam_name t =
     (case t of
        Team team \<Rightarrow> Inr (Some (name team))
      | Undefined \<Rightarrow> Inl TypeError
      | Inherited key \<Rightarrow>
          Inr (if key = ''__proto__'' then None
               else if key = ''constructor'' then Some ''Object''
               else Some key))"

text \<open>An optional string in a template literal.\<close>

definition interpolate :: "string option \<Rightarrow> string" where
  "interpolate v = (case v of None \<Rightarrow> ''undefined'' | Some s \<Rightarrow> s)"

text \<open>\<open>userInput.repoTopics && userInput.repoTopics[0] !== ''\<close>.\<close>

definition hasTopics :: "UserInput \<Rightarrow> bool" where
  "hasTopics userInput =
     (case repoTopics userInput of
        None \<Rightarrow> False
      | Some [] \<Rightarrow> True
      | Some (t # ts) \<Rightarrow> t \<noteq> [])"

text \<open>The \<open>for (const file of templateFiles)\<close> loop.\<close>

fun forTemplateFiles ::
  "libs \<Rightarrow> Octokit \<Rightarrow> UserInput \<Rightarrow> RenderedTemplateFile list \<Rightarrow> string list \<Rightarrow> world \<Rightarrow>
     (error + string list) \<times> world" where
  "forTemplateFiles L gh userInput [] successfulAdditions w = (Inr successfulAdditions, w)"
| "forTemplateFiles L gh userInput (f # rest) successfulAdditions w =
     (let w1 = console_log (Str (''[main] Adding file: '' @ path f)) w;
          message = ''feat: added '' @ path f @ '' from template repo'';
          w2 = send (CreateOrUpdateFileContents message (base64_encode L (content f)) (path f)
                       (repoName userInput) (repoOwner userInput)) w1
      in (case createOrUpdateFileContents gh message (base64_encode L (content f)) (path f)
                 (repoName userInput) (repoOwner userInput) of
            Inl e \<Rightarrow> (Inl e, w2)
          | Inr status \<Rightarrow>
              let w3 = console_log
                         (Str (cyan L (''[main] CreateOrUpdateFile Status: '' @ decimal status)))
                         w2
              in forTemplateFiles L gh userInput rest
                   (if status = 201 then successfulAdditions @ [path f] else successfulAdditions)
                   w3))"

text \<open>The topics step of the \<open>try\<close> block.\<close>

definition replaceTopics :: "Octokit \<Rightarrow> UserInput \<Rightarrow> world \<Rightarrow> (error + unit) \<times> world" where
  "replaceTopics gh userInput w =
     (if hasTopics userInput then
        let names = (case repoTopics userInput of Some ts \<Rightarrow> ts | None \<Rightarrow> []);
            w1 = send (ReplaceAllTopics names (repoName userInput) (repoOwner userInput)) w
        in (case replaceAllTopics gh names (repoName userInput) (repoOwner userInput) of
              Inl e \<Rightarrow> (Inl e, w1)
            | Inr status \<Rightarrow>
                (Inr (),
                 console_log (Str (''[main] Topics Response Status: '' @ decimal status)) w1))
      else (Inr (), w))"

text \<open>
  The first step of the \<open>try\<close> block, after the input is read: the message with the
  details, the creation request and the log lines that follow it.
\<close>

definition createRepo ::
  "Octokit \<Rightarrow> UserInput \<Rightarrow> string option \<Rightarrow> world \<Rightarrow> (error + unit) \<times> world" where
  "createRepo gh userInput teamName w =
     (let debugLogMsgs =
            [''[main] Creating a new repository with the following details:'' @ [CHR 0x0A],
             [CHR 0x09] @ ''- Name: '' @ repoName userInput,
             [CHR 0x09] @ ''- Team: '' @ interpolate teamName,
             [CHR 0x09] @ ''- Type: '' @ repoType userInput,
             [CHR 0x09] @ ''- Owner: '' @ repoOwner userInput,
             [CHR 0x09] @ ''- Topics: '' @
               interpolate (map_option (join '', '') (repoTopics userInput)),
             [CHR 0x09] @ ''- Description: '' @ interpolate (repoDescription userInput)];
          w1 = console_debug (Str (join [CHR 0x0A] debugLogMsgs)) w;
          w2 = send (CreateInOrg (repoName userInput) (repoOwner userInput)
                       (repoDescription userInput)) w1
      in (case createInOrg gh (repoName userInput) (repoOwner userInput)
                 (repoDescription userInput) of
            Inl e \<Rightarrow> (Inl e, w2)
          | Inr status \<Rightarrow>
              let w3 = console_log (Str (''[main] Repo Create Status: '' @ decimal status)) w2;
                  w4 = console_log (Str ''[main] UserInput Repo Topics:'') w3;
                  w5 = console_log
                         (case repoTopics userInput of
                            None \<Rightarrow> Undef
                          | Some ts \<Rightarrow> StrList ts) w4;
                  w6 = console_log (Str ''[main] UserInput Description'') w5;
                  w7 = console_log
                         (case repoDescription userInput of
                            None \<Rightarrow> Undef
                          | Some d \<Rightarrow> Str d) w6
              in (Inr (), w7)))"

text \<open>The last step: the template files are fetched and written one by one.\<close>

definition addTemplateFiles ::
  "libs \<Rightarrow> Octokit \<Rightarrow> UserInput \<Rightarrow> world \<Rightarrow> (error + unit) \<times> world" where
  "addTemplateFiles L gh userInput w =
     (case getTemplateFiles L gh userInput w of
        (templateFiles, w1) \<Rightarrow>
          (case forTemplateFiles L gh userInput templateFiles [] w1 of
             (Inl e, w2) \<Rightarrow> (Inl e, w2)
           | (Inr successfulAdditions, w2) \<Rightarrow>
               (Inr (),
                console_log
                  (Str (''[main] Template Files Length: '' @ decimal (length templateFiles)))
                  (console_log
                     (Str (''[main] Successful Additions Length: '' @
                           decimal (length successfulAdditions)))
                     w2))))"

text \<open>
  The body of the top-level \<open>try\<close>: the input, the team's name for the first message,
  then the three steps; an exception of any of them ends the block.
\<close>

definition main_try :: "libs \<Rightarrow> Octokit \<Rightarrow> env \<Rightarrow> world \<Rightarrow> (error + unit) \<times> world" where
  "main_try L gh env w =
     (case getInput env of
        Inl e \<Rightarrow> (Inl e, w)
      | Inr userInput \<Rightarrow>
     (case repoTeam_name (repoTeam userInput) of
        Inl e \<Rightarrow> (Inl e, w)
      | Inr teamName \<Rightarrow>
     (case createRepo gh userInput teamName w of
        (Inl e, w1) \<Rightarrow> (Inl e, w1)
      | (Inr u1, w1) \<Rightarrow>
     (case replaceTopics gh userInput w1 of
        (Inl e, w2) \<Rightarrow> (Inl e, w2)
      | (Inr u2, w2) \<Rightarrow> addTemplateFiles L gh userInput w2))))"

text \<open>
  A run of the module. The check of the API token stands outside every \<open>try\<close>: its
  \<open>throw\<close> is uncaught and the runtime ends the process with exit code 1. The \<open>catch\<close>
  of the top-level \<open>try\<close> writes two lines with \<open>console.error\<close> and nothing else, so
  the module runs to its end and the process ends with exit code 0.
\<close>

record outcome =
  final :: world
  uncaught :: "error option"
  exitCode :: nat

definition run :: "libs \<Rightarrow> Octokit \<Rightarrow> env \<Rightarrow> outcome" where
  "run L gh env =
     (let w0 = emptyWorld;
          ApiToken = or_else (env ''GITHUB_TOKEN'') (env ''GH_PAT'')
      in if \<not> truthy ApiToken then
           \<lparr>final = w0,
            uncaught = Some (Error ''GitHub Access Token not found in environment, must be set as GITHUB_TOKEN or GH_PAT.''),
            exitCode = 1\<rparr>
         else
           (case main_try L gh env w0 of
              (Inr u, w) \<Rightarrow> \<lparr>final = w, uncaught = None, exitCode = 0\<rparr>
            | (Inl e, w) \<Rightarrow>
                \<lparr>final =
                   console_error (Exn e)
                     (console_error
                        (Str (red L ''[ERROR][main] Error caught when creating and initializing repo''))
                        w),
                 uncaught = None,
                 exitCode = 0\<rparr>))"

subsection \<open>Vocabulary for the properties of the fetcher\<close>

text \<open>
  The answer to the content request for a tree node; whether it fails (a thrown error or
  a status other than 200); whether it succeeds with a content that passes the test of
  \<open>renderFileData\<close>; and the rendered file it then leads to.
\<close>

definition fetch :: "Octokit \<Rightarrow> UserInput \<Rightarrow> tree_node \<Rightarrow> error + nat \<times> GetContentsData" where
  "fetch gh input n = getContent gh (templateRepoName input) (repoOwner input) (nodePath n)"

definition fetchFails :: "Octokit \<Rightarrow> UserInput \<Rightarrow> tree_node \<Rightarrow> bool" where
  "fetchFails gh input n =
     (case fetch gh input n of Inl e \<Rightarrow> True | Inr (status, d) \<Rightarrow> status \<noteq> 200)"

definition hasContent :: "Octokit \<Rightarrow> UserInput \<Rightarrow> tree_node \<Rightarrow> bool" where
  "hasContent gh input n =
     (case fetch gh input n of
        Inl e \<Rightarrow> False
      | Inr (status, d) \<Rightarrow> status = 200 \<and> truthy (file_content d))"

definition renders :: "libs \<Rightarrow> Octokit \<Rightarrow> UserInput \<Rightarrow> RenderedTemplateFile \<Rightarrow> tree_node \<Rightarrow> bool" where
  "renders L gh input entry n =
     (case fetch gh input n of
        Inl e \<Rightarrow> False
      | Inr (status, d) \<Rightarrow> fst (renderFileData L d input emptyWorld) = Inr (Some entry))"

text \<open>The requests that replace the topics of a repository.\<close>

definition isTopicsCall :: "api_call \<Rightarrow> bool" where
  "isTopicsCall c = (case c of ReplaceAllTopics names repo owner \<Rightarrow> True | _ \<Rightarrow> False)"

subsection \<open>Well-formed repository paths\<close>

text \<open>
  A path of a git tree is a sequence of names joined by \<open>/\<close>, where a name is not
  empty, holds no \<open>/\<close> and is neither \<open>.\<close> nor \<open>..\<close>.
\<close>

definition properSegment :: "string \<Rightarrow> bool" where
  "properSegment s = (s \<noteq> [] \<and> CHR ''/'' \<notin> set s \<and> s \<noteq> ''.'' \<and> s \<noteq> ''..'')"

subsection \<open>A sample run\<close>

text \<open>
  A small template repository and environment on which the functions above can be
  evaluated: a decoder and an encoder that know the sample's files, a template engine
  that replaces the placeholder \<open>{{ repoName }}\<close> and rejects a malformed tag, and a
  GitHub client that serves the sample tree.
\<close>

function substitute :: "string \<Rightarrow> string \<Rightarrow> string \<Rightarrow> string" where
  "substitute pat rep [] = []"
| "substitute pat rep (c # cs) =
     (if prefix pat (c # cs) \<and> pat \<noteq> [] then rep @ substitute pat rep (drop (length pat - 1) cs)
      else c # substitute pat rep cs)"
  by pat_completeness auto
termination
  by (relation "measure (\<lambda>(pat, rep, text). length text)") auto

definition sampleBase64 :: "(string \<times> string) list" where
  "sampleBase64 =
     [(''IyB7eyByZXBvTmFtZSB9fQ=='', ''# {{ repoName }}''),
      (''bmFtZSA9IHt7IHJlcG9OYW1lIH19'', ''name = {{ repoName }}''),
      (''IyBvdGhlciB7eyByZXBvTmFtZSB9fQ=='', ''# other {{ repoName }}''),
      (''Y29uc29sZS5sb2coMSk='', ''console.log(1)''),
      (''TUlU'', ''MIT''),
      (''eyUgaWYgJX0='', ''{% if %}''),
      (''IyBmb28='', ''# foo''),
      (''bmFtZSA9IGZvbw=='', ''name = foo''),
      (''IyBvdGhlciBmb28='', ''# other foo'')]"

definition sampleLibs :: libs where
  "sampleLibs =
     \<lparr>base64_decode = (\<lambda>s. case map_of sampleBase64 s of Some t \<Rightarrow> t | None \<Rightarrow> []),
      base64_encode =
        (\<lambda>t. case map_of (map (\<lambda>(a, b). (b, a)) sampleBase64) t of Some s \<Rightarrow> s | None \<Rightarrow> []),
      renderString =
        (\<lambda>text input.
           if text = ''{% if %}'' then Inl (Thrown ''Template render error'')
           else Inr (substitute ''{{ repoName }}'' (repoName input) text)),
      cyan = (\<lambda>s. s),
      red = (\<lambda>s. s)\<rparr>"

definition sampleFile :: "string \<Rightarrow> string option \<Rightarrow> GetContentsData" where
  "sampleFile p c =
     \<lparr>file_type = File, file_size = (case c of None \<Rightarrow> 0 | Some s \<Rightarrow> length s),
      file_name = basename p, file_path = p, file_content = c, file_sha = ''0000''\<rparr>"

definition sampleFiles :: "(string \<times> GetContentsData) list" where
  "sampleFiles =
     map (\<lambda>(p, c). (p, sampleFile p c))
       [(''bun/README.njk'', Some ''IyB7eyByZXBvTmFtZSB9fQ==''),
        (''bun/package.njk'', Some ''bmFtZSA9IHt7IHJlcG9OYW1lIH19''),
        (''bun/other.njk'', Some ''IyBvdGhlciB7eyByZXBvTmFtZSB9fQ==''),
        (''bun/src/index.ts'', Some ''Y29uc29sZS5sb2coMSk=''),
        (''bun/LICENSE'', Some ''TUlU''),
        (''bun/.gitkeep'', Some []),
        (''bun/link'', None),
        (''elysia/README.njk'', Some ''IyB7eyByZXBvTmFtZSB9fQ=='')]"

definition sampleNode :: "string \<Rightarrow> string \<Rightarrow> tree_node" where
  "sampleNode t p =
     \<lparr>node_path = Some p, node_mode = None, node_type = Some t, node_sha = Some ''0000''\<rparr>"

definition sampleTree :: "tree_node list" where
  "sampleTree =
     [sampleNode ''tree'' ''bun'',
      sampleNode ''blob'' ''bun/README.njk'',
      sampleNode ''blob'' ''bun/package.njk'',
      sampleNode ''blob'' ''bun/other.njk'',
      sampleNode ''tree'' ''bun/src'',
      sampleNode ''blob'' ''bun/src/index.ts'',
      sampleNode ''blob'' ''bun/LICENSE'',
      sampleNode ''blob'' ''bun/.gitkeep'',
      sampleNode ''blob'' ''bun/link'',
      sampleNode ''tree'' ''elysia'',
      sampleNode ''blob'' ''elysia/README.njk'']"

definition sampleOctokit :: Octokit where
  "sampleOctokit =
     \<lparr>getTree = (\<lambda>repo owner. Inr (200, sampleTree)),
      getContent =
        (\<lambda>repo owner p.
           case map_of sampleFiles p of
             Some d \<Rightarrow> Inr (200, d)
           | None \<Rightarrow> Inl (Thrown ''Not Found'')),
      createInOrg = (\<lambda>n org d. Inr 201),
      replaceAllTopics = (\<lambda>names repo owner. Inr 200),
      createOrUpdateFileContents = (\<lambda>message c p repo owner. Inr 201)\<rparr>"

text \<open>The files the sample run renders, in the order of the tree.\<close>

definition sampleRendered :: "RenderedTemplateFile list" where
  "sampleRendered =
     [\<lparr>path = ''bun/README.md'', content = ''# foo''\<rparr>,
      \<lparr>path = ''bun/package.json'', content = ''name = foo''\<rparr>,
      \<lparr>path = ''bun/other.njk'', content = ''# other foo''\<rparr>,
      \<lparr>path = ''bun/src/index.ts'', content = ''console.log(1)''\<rparr>,
      \<lparr>path = ''bun/LICENSE'', content = ''MIT''\<rparr>]"

text \<open>The same client with one more blob in the tree, whose content request fails.\<close>

definition brokenOctokit :: Octokit where
  "brokenOctokit =
     sampleOctokit
       \<lparr>getTree := (\<lambda>repo owner. Inr (200, sampleTree @ [sampleNode ''blob'' ''bun/missing'']))\<rparr>"

text \<open>
  In a git tree a symbolic link is an entry of type \<open>blob\<close> with mode \<open>120000\<close>, and a
  content request for a link to a file of the repository is answered with the content
  of that file. A client whose tree holds one such entry:
\<close>

definition symlinkNode :: tree_node where
  "symlinkNode =
     \<lparr>node_path = Some ''bun/current'', node_mode = Some ''120000'',
      node_type = Some ''blob'', node_sha = Some ''0000''\<rparr>"

definition symlinkOctokit :: Octokit where
  "symlinkOctokit =
     sampleOctokit
       \<lparr>getTree := (\<lambda>repo owner. Inr (200, [symlinkNode])),
        getContent :=
          (\<lambda>repo owner p.
             if p = ''bun/current'' then Inr (200, sampleFile ''bun/current'' (Some ''TUlU''))
             else Inl (Thrown ''Not Found''))\<rparr>"

text \<open>
  A second set of libraries: it agrees with the sample's on the content of the sample's
  \<open>README.njk\<close> and on the text that content decodes to, and differs from it elsewhere.
\<close>

definition otherLibs :: libs where
  "otherLibs =
     sampleLibs
       \<lparr>base64_decode :=
          (\<lambda>s. if s = ''IyB7eyByZXBvTmFtZSB9fQ=='' then ''# {{ repoName }}'' else ''?''),
        renderString :=
          (\<lambda>text input.
             if text = ''# {{ repoName }}'' then Inr (''# '' @ repoName input)
             else Inl (Thrown ''unknown template'')),
        red := (\<lambda>s. ''!'' @ s)\<rparr>"

text \<open>The sample client with a creation request that fails.\<close>

definition failingOctokit :: Octokit where
  "failingOctokit = sampleOctokit\<lparr>createInOrg := (\<lambda>n org d. Inl (Thrown ''HttpError''))\<rparr>"

definition sampleEnv :: env where
  "sampleEnv =
     map_of
       [(''GH_PAT'', ''token''),
        (''REPO_NAME'', ''foo''),
        (''REPO_TEAM'', ''Platform''),
        (''REPO_TYPE'', ''Bun''),
        (''REPO_OWNER'', ''liatrio''),
        (''REPO_TOPICS'', ''api,bun'')]"

definition sampleInput :: UserInput where
  "sampleInput =
     \<lparr>repoName = ''foo'',
      repoTeam = Team \<lparr>name = ''Platform'', description = ''The team responsible for the platform.''\<rparr>,
      repoType = ''Bun'',
      repoOwner = ''liatrio'',
      repoTopics = Some [''api'', ''bun''],
      repoDescription = None,
      templateRepoName = ''Blog-GitHub-API-Automation-Template''\<rparr>"

section \<open>Facts about the string and path primitives\<close>

lemma split_not_Nil: "split sep s \<noteq> []"
  by (induction s) (auto split: list.splits)

lemma split_no_sep: "sep \<notin> set s \<Longrightarrow> split sep s = [s]"
  by (induction s) auto

lemma split_append_sep: "split sep (x @ sep # y) = split sep x @ split sep y"
proof (induction x)
  case Nil
  show ?case by simp
next
  case (Cons c x)
  obtain w ws where w: "split sep x = w # ws"
    using split_not_Nil [of sep x] by (cases "split sep x") auto
  show ?case using Cons w by simp
qed

lemma join_snoc: "xs \<noteq> [] \<Longrightarrow> join sep (xs @ [b]) = join sep xs @ sep @ b"
  by (induction sep xs rule: join.induct) auto

lemma join_Cons: "xs \<noteq> [] \<Longrightarrow> join sep (x # xs) = x @ sep @ join sep xs"
  by (cases xs) auto

lemma split_join:
  "segs \<noteq> [] \<Longrightarrow> list_all (\<lambda>s. sep \<notin> set s) segs \<Longrightarrow> split sep (join [sep] segs) = segs"
proof (induction segs)
  case Nil
  then show ?case by simp
next
  case (Cons s segs)
  show ?case
  proof (cases segs)
    case Nil
    then show ?thesis using Cons.prems by (simp add: split_no_sep)
  next
    case (Cons t ts)
    then have "join [sep] (s # segs) = s @ sep # join [sep] segs" by simp
    then show ?thesis using Cons.IH Cons.prems Cons
      by (simp add: split_append_sep split_no_sep)
  qed
qed

lemma foldl_normalizeStep_proper:
  "list_all properSegment segs \<Longrightarrow> foldl (normalizeStep a) res segs = rev segs @ res"
  by (induction segs arbitrary: res) (auto simp: normalizeStep_def properSegment_def)

lemma hd_join_proper:
  "segs \<noteq> [] \<Longrightarrow> list_all properSegment segs \<Longrightarrow>
     join ''/'' segs \<noteq> [] \<and> \<not> isSep (hd (join ''/'' segs)) \<and> \<not> isSep (last (join ''/'' segs))"
proof (induction segs)
  case Nil
  then show ?case by simp
next
  case (Cons s segs)
  show ?case
  proof (cases segs)
    case Nil
    then show ?thesis using Cons.prems
      by (cases s) (auto simp: properSegment_def isSep_def dest: last_in_set)
  next
    case (Cons t ts)
    then show ?thesis using Cons.IH Cons.prems
      by (cases s) (auto simp: properSegment_def isSep_def join_Cons)
  qed
qed

lemma normalize_proper:
  assumes "segs \<noteq> []" "list_all properSegment segs"
  shows "normalize (join ''/'' segs) = join ''/'' segs"
proof -
  have ns: "list_all (\<lambda>s. CHR ''/'' \<notin> set s) segs"
    using assms(2) by (induction segs) (auto simp: properSegment_def)
  have sp: "split CHR ''/'' (join ''/'' segs) = segs"
    using split_join [OF assms(1) ns] by simp
  have q: "normalizeString (join ''/'' segs) a = join ''/'' segs" for a
    by (simp add: normalizeString_def sp foldl_normalizeStep_proper [OF assms(2)])
  show ?thesis
    using hd_join_proper [OF assms] by (simp add: normalize_def q Let_def)
qed


lemma basename_append:
  assumes "b \<noteq> []" "CHR ''/'' \<notin> set b" "pre = [] \<or> last pre = CHR ''/''"
  shows "basename (pre @ b) = b"
proof -
  have nb: "\<not> isSep (hd (rev b))" "rev b \<noteq> []"
    using assms(1,2) by (auto simp: isSep_def hd_rev dest: last_in_set)
  have d: "dropWhile isSep (rev b @ rev pre) = rev b @ rev pre"
    using nb by (cases "rev b") auto
  have t: "takeWhile (\<lambda>c. \<not> isSep c) (rev b @ rev pre) = rev b"
  proof (cases pre rule: rev_cases)
    case Nil
    then show ?thesis using assms(2) by (auto simp: isSep_def)
  next
    case (snoc ys y)
    then have "y = CHR ''/''" using assms(3) by simp
    then show ?thesis using snoc assms(2)
      by (simp add: takeWhile_append isSep_def)
  qed
  show ?thesis by (simp add: basename_def d t)
qed

lemma dirname_append:
  assumes "b \<noteq> []" "CHR ''/'' \<notin> set b" "d \<noteq> []" "\<not> isSep (hd d)"
  shows "dirname (d @ CHR ''/'' # b) = d"
proof -
  obtain c cs where dc: "d = c # cs" using assms(3) by (cases d) auto
  have nb: "rev b \<noteq> []" "\<not> isSep (hd (rev b))"
    using assms(1,2) by (auto simp: isSep_def hd_rev dest: last_in_set)
  have tl: "rev (tl (d @ CHR ''/'' # b)) = rev b @ CHR ''/'' # rev cs"
    using dc by simp
  have d1: "dropWhile isSep (rev b @ CHR ''/'' # rev cs) = rev b @ CHR ''/'' # rev cs"
    using nb by (cases "rev b") auto
  have d2: "dropWhile (\<lambda>c. \<not> isSep c) (rev b @ CHR ''/'' # rev cs) = CHR ''/'' # rev cs"
    using assms(2) by (simp add: dropWhile_append isSep_def)
  have "dirname (d @ CHR ''/'' # b) = take (Suc (length cs)) (d @ CHR ''/'' # b)"
    using assms(4) dc unfolding dirname_def tl d1 d2 Let_def by simp
  then show ?thesis using dc by simp
qed

lemma dirname_plain:
  assumes "b \<noteq> []" "CHR ''/'' \<notin> set b"
  shows "dirname b = ''.''"
proof -
  obtain c cs where bc: "b = c # cs" using assms(1) by (cases b) auto
  have "dropWhile (\<lambda>c. \<not> isSep c) (dropWhile isSep (rev cs)) = []"
    using assms(2) bc by (auto simp: isSep_def dropWhile_eq_Nil_conv dest: set_dropWhileD)
  then show ?thesis using bc assms(2) by (auto simp: dirname_def isSep_def)
qed

lemma njk_basename:
  assumes "endsWith p ''.njk''"
  shows "\<exists>x. basename p = x @ ''.njk'' \<and> CHR ''/'' \<notin> set x"
proof -
  obtain z where p: "p = z @ ''.njk''"
    using assms by (auto simp: endsWith_def suffix_def)
  have "basename p = rev (takeWhile (\<lambda>c. \<not> isSep c) (rev z)) @ ''.njk''"
    by (simp add: p basename_def isSep_def)
  moreover have "CHR ''/'' \<notin> set (rev (takeWhile (\<lambda>c. \<not> isSep c) (rev z)))"
    by (auto simp: isSep_def dest: set_takeWhileD)
  ultimately show ?thesis by blast
qed

lemma path_join_dot:
  assumes "properSegment x"
  shows "path_join [''.'', x] = x"
proof -
  have x: "x \<noteq> []" "CHR ''/'' \<notin> set x" "x \<noteq> ''.''" "x \<noteq> ''..''"
    using assms by (auto simp: properSegment_def)
  have sp: "split CHR ''/'' (''./'' @ x) = [''.'', x]"
    using split_append_sep [of "CHR ''/''" "''.''" x] x(2) by (simp add: split_no_sep)
  have q: "normalizeString (''./'' @ x) a = x" for a
    unfolding normalizeString_def sp using x by (simp add: normalizeStep_def)
  have l: "\<not> isSep (last (''./'' @ x))"
    using x(1,2) by (auto simp: isSep_def dest: last_in_set)
  have q': "normalizeString (CHR ''.'' # CHR ''/'' # x) a = x" for a
    using q [of a] by simp
  have "normalize (''./'' @ x) = x"
    using x(1) l by (simp add: normalize_def q' Let_def isSep_def)
  then show ?thesis using x(1) by (simp add: path_join_def)
qed

lemma path_join_proper:
  assumes "d \<noteq> []" "list_all properSegment d" "properSegment x"
  shows "path_join [join ''/'' d, x] = join ''/'' d @ CHR ''/'' # x"
proof -
  have ne: "join ''/'' d \<noteq> []" using hd_join_proper [OF assms(1,2)] by simp
  have x: "x \<noteq> []" using assms(3) by (simp add: properSegment_def)
  have "path_join [join ''/'' d, x] = normalize (join ''/'' (d @ [x]))"
    using ne x assms(1) by (simp add: path_join_def join_snoc)
  also have "\<dots> = join ''/'' (d @ [x])"
    using normalize_proper [of "d @ [x]"] assms by simp
  finally show ?thesis using assms(1) by (simp add: join_snoc)
qed

lemma dirname_proper:
  assumes "d \<noteq> []" "list_all properSegment d" "properSegment b"
  shows "dirname (join ''/'' d @ CHR ''/'' # b) = join ''/'' d"
  using dirname_append [of b "join ''/'' d"] hd_join_proper [OF assms(1,2)] assms(3)
  by (simp add: properSegment_def)

lemma basename_proper:
  assumes "properSegment b"
  shows "basename (dir @ CHR ''/'' # b) = b"
  using basename_append [of b "dir @ ''/''"] assms by (simp add: properSegment_def)

lemma endsWith_append: "endsWith (x @ s) s"
  by (simp add: endsWith_def suffix_def)

lemma join_snoc_not_Nil: "b \<noteq> [] \<Longrightarrow> join sep (xs @ [b]) \<noteq> []"
  by (cases "xs = []") (simp_all add: join_snoc)

lemma dirname_not_Nil: "dirname p \<noteq> []"
  by (auto simp: dirname_def Let_def)

lemma normalizeStep_proper: "properSegment b \<Longrightarrow> normalizeStep a res b = b # res"
  by (simp add: normalizeStep_def properSegment_def)

lemma basename_path_join:
  assumes "properSegment b" and "dn \<noteq> []"
  shows "basename (path_join [dn, b]) = b"
proof -
  have b: "b \<noteq> []" "CHR ''/'' \<notin> set b" using assms(1) by (auto simp: properSegment_def)
  let ?P = "dn @ ''/'' @ b"
  have pj: "path_join [dn, b] = normalize ?P"
    using b(1) assms(2) by (simp add: path_join_def)
  have sp: "split CHR ''/'' ?P = split CHR ''/'' dn @ [b]"
    using split_append_sep [of "CHR ''/''" dn b] b(2) by (simp add: split_no_sep)
  define S where "S a = foldl (normalizeStep a) [] (split CHR ''/'' dn)" for a
  have q: "normalizeString ?P a = join ''/'' (rev (S a) @ [b])" for a
    unfolding normalizeString_def sp by (simp add: S_def normalizeStep_proper [OF assms(1)])
  have qne: "normalizeString ?P a \<noteq> []" for a
    unfolding q using b(1) join_snoc_not_Nil by blast
  have l: "\<not> isSep (last ?P)"
    using b by (auto simp: isSep_def dest: last_in_set)
  have P: "?P \<noteq> []" by simp
  define a where "a = (\<not> isSep (hd ?P))"
  have n: "normalize ?P = (if isSep (hd ?P) then ''/'' else []) @ normalizeString ?P a"
    using qne [of a] l unfolding normalize_def Let_def a_def by (simp del: append.simps)
  have "\<exists>pre. normalize ?P = pre @ b \<and> (pre = [] \<or> last pre = CHR ''/'')"
  proof (cases "rev (S a) = []")
    case True
    then have "normalize ?P = (if isSep (hd ?P) then ''/'' else []) @ b"
      using n q [of a] by simp
    then show ?thesis by (intro exI [of _ "if isSep (hd ?P) then ''/'' else []"]) auto
  next
    case False
    have "normalizeString ?P a = (join ''/'' (rev (S a)) @ ''/'') @ b"
      unfolding q using join_snoc [OF False, of "''/''" b] by simp
    then have "normalize ?P =
        ((if isSep (hd ?P) then ''/'' else []) @ join ''/'' (rev (S a)) @ ''/'') @ b"
      using n by simp
    then show ?thesis
      by (intro exI [of _ "(if isSep (hd ?P) then ''/'' else []) @ join ''/'' (rev (S a)) @ ''/''"])
         auto
  qed
  then obtain pre where "normalize ?P = pre @ b" "pre = [] \<or> last pre = CHR ''/''" by blast
  then show ?thesis using basename_append [OF b, of pre] pj by simp
qed

lemma njk_properSegment:
  assumes "endsWith p ''.njk''"
  shows "properSegment (basename p) \<and> endsWith (basename p) ''.njk''"
proof -
  obtain x where x: "basename p = x @ ''.njk''" "CHR ''/'' \<notin> set x"
    using njk_basename [OF assms] by blast
  show ?thesis
    unfolding x(1) using x(2)
    by (auto simp: properSegment_def endsWith_def suffix_def append_eq_Cons_conv)
qed

section \<open>The renderer\<close>

lemma renderFileData_falsy:
  "\<not> truthy (file_content f) \<Longrightarrow> renderFileData L f input w = (Inr None, w)"
  by (auto simp: renderFileData_def truthy_def split: option.splits)

text \<open>
  C1, as the code has it. A file whose content is present and not empty (the test
  \<open>if (file.content)\<close> of the source) and whose path does not end with \<open>.njk\<close> is
  returned with its path unchanged and with exactly the decoded content.
\<close>

theorem renderFileData_verbatim:
  assumes "file_content f = Some c" and "c \<noteq> []" and "\<not> endsWith (file_path f) ''.njk''"
  shows "fst (renderFileData L f input w) =
           Inr (Some \<lparr>path = file_path f, content = base64_decode L c\<rparr>)"
  using assms by (simp add: renderFileData_def Let_def)

theorem renderFileData_verbatim_witness:
  "file_content (sampleFile ''bun/LICENSE'' (Some ''TUlU'')) = Some ''TUlU'' \<and>
   ''TUlU'' \<noteq> [] \<and>
   \<not> endsWith (file_path (sampleFile ''bun/LICENSE'' (Some ''TUlU''))) ''.njk'' \<and>
   fst (renderFileData sampleLibs (sampleFile ''bun/LICENSE'' (Some ''TUlU'')) sampleInput
          emptyWorld) =
     Inr (Some \<lparr>path = ''bun/LICENSE'', content = ''MIT''\<rparr>)"
proof -
  have c: "file_content (sampleFile ''bun/LICENSE'' (Some ''TUlU'')) = Some ''TUlU''"
    by (simp add: sampleFile_def)
  have n: "''TUlU'' \<noteq> []" by simp
  have e: "\<not> endsWith (file_path (sampleFile ''bun/LICENSE'' (Some ''TUlU''))) ''.njk''"
    by (simp add: sampleFile_def endsWith_def suffix_def)
  show ?thesis
    using renderFileData_verbatim [OF c n e, of sampleLibs sampleInput emptyWorld] c e
    by (simp add: sampleFile_def sampleLibs_def sampleBase64_def)
qed

text \<open>
  The claim C1 as stated fails for a payload that is present but empty, which is what
  the content request returns for an empty file: the sample's \<open>bun/.gitkeep\<close> has
  a content, its path does not end with \<open>.njk\<close>, and no file is rendered for it.
\<close>

theorem renderFileData_empty_payload:
  "file_content (sampleFile ''bun/.gitkeep'' (Some [])) = Some [] \<and>
   \<not> endsWith (file_path (sampleFile ''bun/.gitkeep'' (Some []))) ''.njk'' \<and>
   renderFileData sampleLibs (sampleFile ''bun/.gitkeep'' (Some [])) sampleInput emptyWorld =
     (Inr None, emptyWorld)"
  by (simp add: sampleFile_def endsWith_def suffix_def renderFileData_def)

lemma renderFileData_njk:
  assumes "file_content f = Some c" and "c \<noteq> []" and "endsWith (file_path f) ''.njk''"
    and "renderString L (base64_decode L c) input = Inr r"
  shows "fst (renderFileData L f input w) =
           Inr (Some \<lparr>path = path_join [dirname (file_path f),
                                          getNewFilename (basename (file_path f))],
                       content = r\<rparr>)"
  using assms by (simp add: renderFileData_def Let_def)

lemma rename_in_directory:
  assumes "d \<noteq> []" and "list_all properSegment d" and "properSegment b" and "properSegment b'"
    and "endsWith b ''.njk''" and "getNewFilename b = b'"
    and "file_content f = Some c" and "c \<noteq> []"
    and "renderString L (base64_decode L c) input = Inr r"
  shows "fst (renderFileData L (f\<lparr>file_path := join ''/'' d @ ''/'' @ b\<rparr>) input w) =
           Inr (Some \<lparr>path = join ''/'' d @ ''/'' @ b', content = r\<rparr>)"
proof -
  let ?p = "join ''/'' d @ CHR ''/'' # b"
  have bn: "basename ?p = b"
    using basename_proper [OF assms(3)] .
  have dn: "dirname ?p = join ''/'' d"
    using dirname_proper [OF assms(1,2,3)] .
  have e: "endsWith ?p ''.njk''"
    using assms(5) by (auto simp: endsWith_def suffix_def)
  have pj: "path_join [join ''/'' d, b'] = join ''/'' d @ CHR ''/'' # b'"
    using path_join_proper [OF assms(1,2,4)] .
  show ?thesis
    using renderFileData_njk [of "f\<lparr>file_path := ?p\<rparr>" c L input r w] assms(6-9) e
    by (simp add: bn dn pj)
qed

lemma rename_at_top_level:
  assumes "properSegment b" and "properSegment b'"
    and "endsWith b ''.njk''" and "getNewFilename b = b'"
    and "file_content f = Some c" and "c \<noteq> []"
    and "renderString L (base64_decode L c) input = Inr r"
  shows "fst (renderFileData L (f\<lparr>file_path := b\<rparr>) input w) =
           Inr (Some \<lparr>path = b', content = r\<rparr>)"
proof -
  have b: "b \<noteq> []" "CHR ''/'' \<notin> set b"
    using assms(1) by (auto simp: properSegment_def)
  have bn: "basename b = b"
    using basename_append [OF b, of "[]"] by simp
  show ?thesis
    using renderFileData_njk [of "f\<lparr>file_path := b\<rparr>" c L input r w] assms(3-7)
    by (simp add: bn dirname_plain [OF b] path_join_dot [OF assms(2)])
qed

text \<open>
  C2. A file with content (a content that passes the test of the source) that is named
  \<open>README.njk\<close> in a directory \<open>d\<close> of the repository (a path of one or more proper
  names) is rendered to \<open>d/README.md\<close>, and one named \<open>package.njk\<close> to
  \<open>d/package.json\<close>; the content is what the template engine returns for the decoded
  text.
\<close>

theorem renderFileData_renames:
  assumes "file_content f = Some c" and "c \<noteq> []"
    and "d \<noteq> []" and "list_all properSegment d"
    and "renderString L (base64_decode L c) input = Inr r"
  shows "fst (renderFileData L (f\<lparr>file_path := join ''/'' d @ ''/README.njk''\<rparr>) input w) =
           Inr (Some \<lparr>path = join ''/'' d @ ''/README.md'', content = r\<rparr>) \<and>
         fst (renderFileData L (f\<lparr>file_path := join ''/'' d @ ''/package.njk''\<rparr>) input w) =
           Inr (Some \<lparr>path = join ''/'' d @ ''/package.json'', content = r\<rparr>)"
proof
  show "fst (renderFileData L (f\<lparr>file_path := join ''/'' d @ ''/README.njk''\<rparr>) input w) =
          Inr (Some \<lparr>path = join ''/'' d @ ''/README.md'', content = r\<rparr>)"
    using rename_in_directory [OF assms(3,4), of "''README.njk''" "''README.md''" f c L input r w]
      assms(1,2,5)
    by (simp add: properSegment_def endsWith_def suffix_def getNewFilename_def)
  show "fst (renderFileData L (f\<lparr>file_path := join ''/'' d @ ''/package.njk''\<rparr>) input w) =
          Inr (Some \<lparr>path = join ''/'' d @ ''/package.json'', content = r\<rparr>)"
    using rename_in_directory [OF assms(3,4), of "''package.njk''" "''package.json''" f c L input r w]
      assms(1,2,5)
    by (simp add: properSegment_def endsWith_def suffix_def getNewFilename_def)
qed

theorem renderFileData_renames_witness:
  "file_content (sampleFile ''bun/README.njk'' (Some ''IyB7eyByZXBvTmFtZSB9fQ=='')) =
     Some ''IyB7eyByZXBvTmFtZSB9fQ=='' \<and>
   ''IyB7eyByZXBvTmFtZSB9fQ=='' \<noteq> [] \<and>
   [''bun''] \<noteq> [] \<and> list_all properSegment [''bun''] \<and>
   renderString sampleLibs (base64_decode sampleLibs ''IyB7eyByZXBvTmFtZSB9fQ=='') sampleInput =
     Inr ''# foo'' \<and>
   fst (renderFileData sampleLibs
          ((sampleFile ''bun/README.njk'' (Some ''IyB7eyByZXBvTmFtZSB9fQ==''))
             \<lparr>file_path := ''bun/README.njk''\<rparr>) sampleInput emptyWorld) =
     Inr (Some \<lparr>path = ''bun/README.md'', content = ''# foo''\<rparr>) \<and>
   fst (renderFileData sampleLibs
          ((sampleFile ''bun/README.njk'' (Some ''IyB7eyByZXBvTmFtZSB9fQ==''))
             \<lparr>file_path := ''bun/package.njk''\<rparr>) sampleInput emptyWorld) =
     Inr (Some \<lparr>path = ''bun/package.json'', content = ''# foo''\<rparr>)"
proof -
  have c: "file_content (sampleFile ''bun/README.njk'' (Some ''IyB7eyByZXBvTmFtZSB9fQ=='')) =
             Some ''IyB7eyByZXBvTmFtZSB9fQ==''"
    by (simp add: sampleFile_def)
  have n: "''IyB7eyByZXBvTmFtZSB9fQ=='' \<noteq> []" by simp
  have d: "[''bun''] \<noteq> []" "list_all properSegment [''bun'']"
    by (simp_all add: properSegment_def)
  have r: "renderString sampleLibs (base64_decode sampleLibs ''IyB7eyByZXBvTmFtZSB9fQ=='')
             sampleInput = Inr ''# foo''"
    by (simp add: sampleLibs_def sampleBase64_def sampleInput_def)
  show ?thesis
    using renderFileData_renames [OF c n d r, of emptyWorld] c n d r by simp
qed

text \<open>
  C3. A file with content whose path ends with \<open>.njk\<close> and whose base name is neither
  \<open>README.njk\<close> nor \<open>package.njk\<close> keeps its file name, suffix included, and its
  content is what the template engine returns for the decoded text.
\<close>

theorem renderFileData_keeps_name:
  assumes "file_content f = Some c" and "c \<noteq> []"
    and "endsWith (file_path f) ''.njk''"
    and "basename (file_path f) \<noteq> ''README.njk''"
    and "basename (file_path f) \<noteq> ''package.njk''"
    and "renderString L (base64_decode L c) input = Inr r"
  shows "\<exists>out. fst (renderFileData L f input w) = Inr (Some out) \<and>
           basename (path out) = basename (file_path f) \<and>
           endsWith (basename (path out)) ''.njk'' \<and>
           content out = r"
proof -
  let ?b = "basename (file_path f)"
  have g: "getNewFilename ?b = ?b"
    using assms(4,5) by (simp add: getNewFilename_def)
  have ps: "properSegment ?b" "endsWith ?b ''.njk''"
    using njk_properSegment [OF assms(3)] by simp_all
  have bn: "basename (path_join [dirname (file_path f), ?b]) = ?b"
    using basename_path_join [OF ps(1) dirname_not_Nil] .
  show ?thesis
    using renderFileData_njk [OF assms(1,2,3,6), of w] g bn ps(2) by simp
qed


theorem renderFileData_keeps_name_witness:
  "file_content (sampleFile ''bun/other.njk'' (Some ''IyBvdGhlciB7eyByZXBvTmFtZSB9fQ=='')) =
     Some ''IyBvdGhlciB7eyByZXBvTmFtZSB9fQ=='' \<and>
   ''IyBvdGhlciB7eyByZXBvTmFtZSB9fQ=='' \<noteq> [] \<and>
   endsWith (file_path (sampleFile ''bun/other.njk'' (Some ''IyBvdGhlciB7eyByZXBvTmFtZSB9fQ==''))) ''.njk'' \<and>
   basename (file_path (sampleFile ''bun/other.njk'' (Some ''IyBvdGhlciB7eyByZXBvTmFtZSB9fQ==''))) \<noteq> ''README.njk'' \<and>
   basename (file_path (sampleFile ''bun/other.njk'' (Some ''IyBvdGhlciB7eyByZXBvTmFtZSB9fQ==''))) \<noteq> ''package.njk'' \<and>
   renderString sampleLibs (base64_decode sampleLibs ''IyBvdGhlciB7eyByZXBvTmFtZSB9fQ=='')
     sampleInput = Inr ''# other foo'' \<and>
   (\<exists>out. fst (renderFileData sampleLibs
                 (sampleFile ''bun/other.njk'' (Some ''IyBvdGhlciB7eyByZXBvTmFtZSB9fQ==''))
                 sampleInput emptyWorld) = Inr (Some out) \<and>
          basename (path out) = ''other.njk'' \<and>
          endsWith (basename (path out)) ''.njk'' \<and>
          content out = ''# other foo'')"
proof -
  let ?f = "sampleFile ''bun/other.njk'' (Some ''IyBvdGhlciB7eyByZXBvTmFtZSB9fQ=='')"
  have c: "file_content ?f = Some ''IyBvdGhlciB7eyByZXBvTmFtZSB9fQ==''"
    by (simp add: sampleFile_def)
  have n: "''IyBvdGhlciB7eyByZXBvTmFtZSB9fQ=='' \<noteq> []" by simp
  have e: "endsWith (file_path ?f) ''.njk''"
    by (simp add: sampleFile_def endsWith_def suffix_def)
  have bn: "basename (file_path ?f) = ''other.njk''"
    by (simp add: sampleFile_def basename_def isSep_def)
  have b1: "basename (file_path ?f) \<noteq> ''README.njk''"
    and b2: "basename (file_path ?f) \<noteq> ''package.njk''"
    by (simp_all add: bn)
  have r: "renderString sampleLibs (base64_decode sampleLibs ''IyBvdGhlciB7eyByZXBvTmFtZSB9fQ=='')
             sampleInput = Inr ''# other foo''"
    by (simp add: sampleLibs_def sampleBase64_def sampleInput_def)
  show ?thesis
    using renderFileData_keeps_name [OF c n e b1 b2 r, of emptyWorld] c e b1 b2 r
    by (simp add: bn)
qed

lemma sample_other_njk:
  "fst (renderFileData sampleLibs
          (sampleFile ''bun/other.njk'' (Some ''IyBvdGhlciB7eyByZXBvTmFtZSB9fQ==''))
          sampleInput emptyWorld) =
     Inr (Some \<lparr>path = ''bun/other.njk'', content = ''# other foo''\<rparr>)"
  by code_simp

text \<open>
  C6. A file whose content is absent (or empty: the same falsy test) yields no rendered
  file: \<open>renderFileData\<close> returns \<open>undefined\<close> without throwing and without touching
  the world, and the loop of \<open>getTemplateFiles\<close> goes on to the next tree node with its
  list of rendered files unchanged.
\<close>

theorem renderFileData_no_content:
  assumes "\<not> truthy (file_content f)"
  shows "renderFileData L f input w = (Inr None, w) \<and>
         (selected input n \<and> node_path n = Some p \<and>
          getContent gh (templateRepoName input) (repoOwner input) p = Inr (200, f) \<longrightarrow>
            forTreeNodes L gh input (n # rest) acc w =
              forTreeNodes L gh input rest acc
                (console_debug
                   (Str (''[getTemplateFiles] Template File Content Status: '' @ decimal 200))
                   (send (GetContent (templateRepoName input) (repoOwner input) p) w)))"
  using renderFileData_falsy [OF assms] by (simp add: Let_def nodePath_def)

theorem renderFileData_no_content_witness:
  "\<not> truthy (file_content (sampleFile ''bun/link'' None)) \<and>
   selected sampleInput (sampleNode ''blob'' ''bun/link'') \<and>
   node_path (sampleNode ''blob'' ''bun/link'') = Some ''bun/link'' \<and>
   getContent sampleOctokit (templateRepoName sampleInput) (repoOwner sampleInput) ''bun/link'' =
     Inr (200, sampleFile ''bun/link'' None) \<and>
   renderFileData sampleLibs (sampleFile ''bun/link'' None) sampleInput emptyWorld =
     (Inr None, emptyWorld) \<and>
   forTreeNodes sampleLibs sampleOctokit sampleInput [sampleNode ''blob'' ''bun/link''] [] emptyWorld =
     (Inr [],
      console_debug (Str (''[getTemplateFiles] Template File Content Status: '' @ decimal 200))
        (send (GetContent (templateRepoName sampleInput) (repoOwner sampleInput) ''bun/link'')
           emptyWorld))"
proof -
  have t: "\<not> truthy (file_content (sampleFile ''bun/link'' None))"
    by (simp add: sampleFile_def truthy_def)
  have s: "selected sampleInput (sampleNode ''blob'' ''bun/link'')"
    by (simp add: selected_def sampleNode_def sampleInput_def truthy_def startsWith_def
        toLowerCase_def toLowerChar_def)
  have p: "node_path (sampleNode ''blob'' ''bun/link'') = Some ''bun/link''"
    by (simp add: sampleNode_def)
  have g: "getContent sampleOctokit (templateRepoName sampleInput) (repoOwner sampleInput)
             ''bun/link'' = Inr (200, sampleFile ''bun/link'' None)"
    by (simp add: sampleOctokit_def sampleFiles_def)
  show ?thesis
    using renderFileData_no_content [OF t, of sampleLibs sampleInput emptyWorld
        "sampleNode ''blob'' ''bun/link''" "''bun/link''" sampleOctokit "[]" "[]"] t s p g
    by simp
qed

text \<open>
  C7, as the code has it. \<open>renderFileData\<close> sends no request, and what it returns does
  not depend on the state of the run: it is fixed by the path and the content of the
  file, by the input, and by what the decoder returns for the content and the template
  engine for the decoded text (two files that agree on path and content, and two
  libraries that agree on these two calls, give the same result from any two worlds).
  It is not free of effects: for a file that has content it writes two lines to the
  console, and for any other file it leaves the world as it is.
\<close>

theorem renderFileData_effects:
  assumes "file_path f = file_path g" and "file_content f = file_content g"
    and "\<forall>c. file_content f = Some c \<longrightarrow>
           base64_decode L c = base64_decode L' c \<and>
           renderString L (base64_decode L c) input =
             renderString L' (base64_decode L' c) input"
  shows "fst (renderFileData L f input w) = fst (renderFileData L' g input w') \<and>
         calls (snd (renderFileData L f input w)) = calls w \<and>
         console (snd (renderFileData L f input w)) =
           console w @
             (if truthy (file_content f) then
                [(ConsoleDebug,
                  Str (''[renderFileData] Rendering file: '' @ basename (file_path f))),
                 (ConsoleDebug,
                  Str (''[renderFileData] File Directory: '' @ dirname (file_path f)))]
              else [])"
proof (cases "file_content f")
  case None
  then show ?thesis using assms(2) by (simp add: renderFileData_def truthy_def)
next
  case (Some c)
  have l: "base64_decode L c = base64_decode L' c"
    "renderString L (base64_decode L' c) input = renderString L' (base64_decode L' c) input"
    using assms(3) Some by auto
  have g: "file_content g = Some c" using assms(2) Some by simp
  show ?thesis
    using Some g assms(1) l
    by (auto simp: renderFileData_def Let_def truthy_def console_debug_def split: sum.splits)
qed

theorem renderFileData_effects_witness:
  "file_path (sampleFile ''bun/README.njk'' (Some ''IyB7eyByZXBvTmFtZSB9fQ=='')) =
     file_path ((sampleFile ''bun/README.njk'' (Some ''IyB7eyByZXBvTmFtZSB9fQ==''))
                  \<lparr>file_sha := ''ffff''\<rparr>) \<and>
   file_content (sampleFile ''bun/README.njk'' (Some ''IyB7eyByZXBvTmFtZSB9fQ=='')) =
     file_content ((sampleFile ''bun/README.njk'' (Some ''IyB7eyByZXBvTmFtZSB9fQ==''))
                     \<lparr>file_sha := ''ffff''\<rparr>) \<and>
   base64_decode sampleLibs ''IyB7eyByZXBvTmFtZSB9fQ=='' =
     base64_decode otherLibs ''IyB7eyByZXBvTmFtZSB9fQ=='' \<and>
   renderString sampleLibs (base64_decode sampleLibs ''IyB7eyByZXBvTmFtZSB9fQ=='') sampleInput =
     renderString otherLibs (base64_decode otherLibs ''IyB7eyByZXBvTmFtZSB9fQ=='') sampleInput \<and>
   base64_decode sampleLibs ''TUlU'' \<noteq> base64_decode otherLibs ''TUlU'' \<and>
   fst (renderFileData sampleLibs
          (sampleFile ''bun/README.njk'' (Some ''IyB7eyByZXBvTmFtZSB9fQ==''))
          sampleInput emptyWorld) =
     fst (renderFileData otherLibs
            ((sampleFile ''bun/README.njk'' (Some ''IyB7eyByZXBvTmFtZSB9fQ==''))
               \<lparr>file_sha := ''ffff''\<rparr>)
            sampleInput (send (GetTree ''r'' ''o'') emptyWorld)) \<and>
   calls (snd (renderFileData sampleLibs
                 (sampleFile ''bun/README.njk'' (Some ''IyB7eyByZXBvTmFtZSB9fQ==''))
                 sampleInput emptyWorld)) = [] \<and>
   console (snd (renderFileData sampleLibs
                   (sampleFile ''bun/README.njk'' (Some ''IyB7eyByZXBvTmFtZSB9fQ==''))
                   sampleInput emptyWorld)) =
     [(ConsoleDebug, Str ''[renderFileData] Rendering file: README.njk''),
      (ConsoleDebug, Str ''[renderFileData] File Directory: bun'')]"
proof -
  let ?c = "''IyB7eyByZXBvTmFtZSB9fQ==''"
  let ?f = "sampleFile ''bun/README.njk'' (Some ?c)"
  let ?g = "?f\<lparr>file_sha := ''ffff''\<rparr>"
  have p: "file_path ?f = file_path ?g" and c: "file_content ?f = file_content ?g"
    by simp_all
  have fc: "file_content ?f = Some ?c" by (simp add: sampleFile_def)
  have d: "base64_decode sampleLibs ?c = base64_decode otherLibs ?c"
    by (simp add: sampleLibs_def otherLibs_def sampleBase64_def)
  have r: "renderString sampleLibs (base64_decode sampleLibs ?c) sampleInput =
             renderString otherLibs (base64_decode otherLibs ?c) sampleInput"
    by (simp add: sampleLibs_def otherLibs_def sampleBase64_def sampleInput_def)
  have n: "base64_decode sampleLibs ''TUlU'' \<noteq> base64_decode otherLibs ''TUlU''"
    by (simp add: sampleLibs_def otherLibs_def sampleBase64_def)
  have a: "\<forall>c. file_content ?f = Some c \<longrightarrow>
             base64_decode sampleLibs c = base64_decode otherLibs c \<and>
             renderString sampleLibs (base64_decode sampleLibs c) sampleInput =
               renderString otherLibs (base64_decode otherLibs c) sampleInput"
    using d r fc by simp
  have t: "truthy (file_content ?f)" by (simp add: sampleFile_def truthy_def)
  have bn: "basename (file_path ?f) = ''README.njk''"
    by (simp add: sampleFile_def basename_def isSep_def)
  have dn: "dirname (file_path ?f) = ''bun''"
    by (simp add: sampleFile_def dirname_def isSep_def)
  note th = renderFileData_effects [OF p c a, of emptyWorld "send (GetTree ''r'' ''o'') emptyWorld"]
  have e1: "fst (renderFileData sampleLibs ?f sampleInput emptyWorld) =
              fst (renderFileData otherLibs ?g sampleInput (send (GetTree ''r'' ''o'') emptyWorld))"
    using th by blast
  have e2: "calls (snd (renderFileData sampleLibs ?f sampleInput emptyWorld)) = []"
    using th by (simp add: emptyWorld_def)
  have e3: "console (snd (renderFileData sampleLibs ?f sampleInput emptyWorld)) =
              [(ConsoleDebug, Str ''[renderFileData] Rendering file: README.njk''),
               (ConsoleDebug, Str ''[renderFileData] File Directory: bun'')]"
    using th t by (simp add: emptyWorld_def bn dn)
  show ?thesis using p c d r n e1 e2 e3 by blast
qed

text \<open>
  The claim C7 as stated fails in its first half: the function is not pure. Rendering
  the sample's \<open>bun/LICENSE\<close> writes two lines to a console that was empty.
\<close>

theorem renderFileData_writes_console:
  "console emptyWorld = [] \<and>
   console (snd (renderFileData sampleLibs (sampleFile ''bun/LICENSE'' (Some ''TUlU''))
                   sampleInput emptyWorld)) =
     [(ConsoleDebug, Str ''[renderFileData] Rendering file: LICENSE''),
      (ConsoleDebug, Str ''[renderFileData] File Directory: bun'')]"
  by code_simp

section \<open>The fetcher\<close>

lemma renderFileData_fst_indep:
  "fst (renderFileData L f input w) = fst (renderFileData L f input w')"
  by (auto simp: renderFileData_def Let_def split: option.splits sum.splits)

lemma renderFileData_None_iff:
  "fst (renderFileData L f input w) = Inr None \<longleftrightarrow> \<not> truthy (file_content f)"
  by (auto simp: renderFileData_def Let_def truthy_def split: option.splits sum.splits)

lemma renderFileData_Some_truthy:
  "fst (renderFileData L f input w) = Inr (Some r) \<Longrightarrow> truthy (file_content f)"
  by (auto simp: renderFileData_def Let_def truthy_def split: option.splits sum.splits if_splits)

lemma forTreeNodes_fails:
  assumes "\<exists>n\<in>set tree. selected input n \<and> fetchFails gh input n"
  shows "\<exists>e w'. forTreeNodes L gh input tree acc w = (Inl e, w')"
  using assms
proof (induction tree arbitrary: acc w)
  case Nil
  then show ?case by simp
next
  case (Cons n rest)
  show ?case
  proof (cases "selected input n")
    case False
    then have "\<exists>m\<in>set rest. selected input m \<and> fetchFails gh input m"
      using Cons.prems by auto
    then show ?thesis using Cons.IH False by simp
  next
    case True
    show ?thesis
    proof (cases "fetchFails gh input n")
      case True
      then show ?thesis using \<open>selected input n\<close>
        by (auto simp: fetchFails_def fetch_def Let_def split: sum.splits prod.splits)
    next
      case False
      then have rest: "\<exists>m\<in>set rest. selected input m \<and> fetchFails gh input m"
        using Cons.prems by auto
      obtain d where d: "getContent gh (templateRepoName input) (repoOwner input) (nodePath n) =
                           Inr (200, d)"
        using False by (auto simp: fetchFails_def fetch_def split: sum.splits prod.splits)
      let ?w2 = "console_debug
                   (Str (''[getTemplateFiles] Template File Content Status: '' @ decimal 200))
                   (send (GetContent (templateRepoName input) (repoOwner input) (nodePath n)) w)"
      obtain res w3 where r: "renderFileData L d input ?w2 = (res, w3)"
        by (cases "renderFileData L d input ?w2") auto
      show ?thesis
      proof (cases res)
        case (Inl e)
        then show ?thesis using True d r by (simp add: Let_def)
      next
        case (Inr opt)
        then show ?thesis using True d r Cons.IH [OF rest]
          by (cases opt) (simp_all add: Let_def)
      qed
    qed
  qed
qed


lemma getTemplateFiles_try_fails:
  assumes "getTree gh (templateRepoName input) (repoOwner input) = Inl e \<or>
           (\<exists>status tree.
              getTree gh (templateRepoName input) (repoOwner input) = Inr (status, tree) \<and>
              (status \<noteq> 200 \<or> (\<exists>n\<in>set tree. selected input n \<and> fetchFails gh input n)))"
  shows "\<exists>e' w'. getTemplateFiles_try L gh input w = (Inl e', w')"
  using assms
proof (elim disjE exE conjE)
  assume "getTree gh (templateRepoName input) (repoOwner input) = Inl e"
  then show ?thesis by (simp add: getTemplateFiles_try_def Let_def)
next
  fix status tree
  assume t: "getTree gh (templateRepoName input) (repoOwner input) = Inr (status, tree)"
    and "status \<noteq> 200"
  then show ?thesis by (simp add: getTemplateFiles_try_def Let_def)
next
  fix status tree
  assume t: "getTree gh (templateRepoName input) (repoOwner input) = Inr (status, tree)"
    and n: "\<exists>n\<in>set tree. selected input n \<and> fetchFails gh input n"
  show ?thesis
    using t forTreeNodes_fails [OF n, of L "[]"]
    by (cases "status = 200") (simp_all add: getTemplateFiles_try_def Let_def)
qed

text \<open>
  C4. When the tree listing throws or answers with a status other than 200, or when the
  content request of any selected tree node throws or answers with a status other than
  200, \<open>getTemplateFiles\<close> returns the empty list, whatever it had rendered before; the
  exception ends in the \<open>catch\<close>, which writes it to the console, and the caller gets a
  value.
\<close>

theorem getTemplateFiles_fail_closed:
  assumes "getTree gh (templateRepoName input) (repoOwner input) = Inl e \<or>
           (\<exists>status tree.
              getTree gh (templateRepoName input) (repoOwner input) = Inr (status, tree) \<and>
              (status \<noteq> 200 \<or> (\<exists>n\<in>set tree. selected input n \<and> fetchFails gh input n)))"
  shows "fst (getTemplateFiles L gh input w) = [] \<and>
         (\<exists>e' w'. getTemplateFiles_try L gh input w = (Inl e', w') \<and>
            snd (getTemplateFiles L gh input w) =
              console_error (Exn e')
                (console_error
                   (Str ''[ERROR][getTemplateFiles] Error caught when getting template files:'')
                   w'))"
proof -
  obtain e' w' where "getTemplateFiles_try L gh input w = (Inl e', w')"
    using getTemplateFiles_try_fails [OF assms] by blast
  then show ?thesis by (simp add: getTemplateFiles_def)
qed

theorem getTemplateFiles_fail_closed_witness:
  "getTree brokenOctokit (templateRepoName sampleInput) (repoOwner sampleInput) =
     Inr (200, sampleTree @ [sampleNode ''blob'' ''bun/missing'']) \<and>
   sampleNode ''blob'' ''bun/missing'' \<in> set (sampleTree @ [sampleNode ''blob'' ''bun/missing'']) \<and>
   selected sampleInput (sampleNode ''blob'' ''bun/missing'') \<and>
   fetchFails brokenOctokit sampleInput (sampleNode ''blob'' ''bun/missing'') \<and>
   fst (getTemplateFiles sampleLibs brokenOctokit sampleInput emptyWorld) = []"
proof -
  let ?n = "sampleNode ''blob'' ''bun/missing''"
  have t: "getTree brokenOctokit (templateRepoName sampleInput) (repoOwner sampleInput) =
             Inr (200, sampleTree @ [?n])"
    by (simp add: brokenOctokit_def)
  have m: "?n \<in> set (sampleTree @ [?n])" by simp
  have s: "selected sampleInput ?n"
    by (simp add: selected_def sampleNode_def sampleInput_def truthy_def startsWith_def
        toLowerCase_def toLowerChar_def)
  have f: "fetchFails brokenOctokit sampleInput ?n"
    by (simp add: fetchFails_def fetch_def brokenOctokit_def sampleOctokit_def sampleFiles_def
        nodePath_def sampleNode_def)
  have "getTree brokenOctokit (templateRepoName sampleInput) (repoOwner sampleInput) = Inl TypeError \<or>
        (\<exists>status tree.
           getTree brokenOctokit (templateRepoName sampleInput) (repoOwner sampleInput) =
             Inr (status, tree) \<and>
           (status \<noteq> 200 \<or> (\<exists>n\<in>set tree. selected sampleInput n \<and> fetchFails brokenOctokit sampleInput n)))"
    using t m s f by blast
  from getTemplateFiles_fail_closed [OF this, of sampleLibs emptyWorld] t m s f
  show ?thesis by simp
qed

lemma forTreeNodes_result:
  assumes "forTreeNodes L gh input tree acc w = (Inr files, w')"
  shows "\<exists>new. files = acc @ new \<and>
           list_all2 (renders L gh input) new
             (filter (\<lambda>n. selected input n \<and> hasContent gh input n) tree)"
  using assms
proof (induction tree arbitrary: acc w)
  case Nil
  then show ?case by simp
next
  case (Cons n rest)
  show ?case
  proof (cases "selected input n")
    case False
    then show ?thesis using Cons.IH [of acc w] Cons.prems by simp
  next
    case True
    let ?w1 = "send (GetContent (templateRepoName input) (repoOwner input) (nodePath n)) w"
    obtain status d where g: "fetch gh input n = Inr (status, d)"
      using Cons.prems True
      by (cases "fetch gh input n") (auto simp: fetch_def Let_def)
    have st: "status = 200"
      using Cons.prems True g by (auto simp: fetch_def Let_def split: if_splits)
    let ?w2 = "console_debug
                 (Str (''[getTemplateFiles] Template File Content Status: '' @ decimal status))
                 ?w1"
    obtain res w3 where r: "renderFileData L d input ?w2 = (res, w3)"
      by (cases "renderFileData L d input ?w2") auto
    have step: "forTreeNodes L gh input (n # rest) acc w =
                  (case res of
                     Inl e \<Rightarrow> (Inl e, w3)
                   | Inr None \<Rightarrow> forTreeNodes L gh input rest acc w3
                   | Inr (Some x) \<Rightarrow> forTreeNodes L gh input rest (acc @ [x]) w3)"
      using True g st r by (simp add: fetch_def Let_def split: sum.splits option.splits)
    show ?thesis
    proof (cases res)
      case (Inl e)
      then show ?thesis using Cons.prems step by simp
    next
      case (Inr opt)
      show ?thesis
      proof (cases opt)
        case None
        have "\<not> truthy (file_content d)"
          using renderFileData_None_iff [of L d input ?w2] r Inr None by simp
        then have nh: "\<not> hasContent gh input n"
          by (simp add: hasContent_def g)
        have "forTreeNodes L gh input rest acc w3 = (Inr files, w')"
          using Cons.prems step Inr None by simp
        then show ?thesis using Cons.IH nh by simp
      next
        case (Some x)
        have t: "truthy (file_content d)"
          using renderFileData_Some_truthy [of L d input ?w2 x] r Inr Some by simp
        then have h: "hasContent gh input n"
          by (simp add: hasContent_def g st)
        have rn: "renders L gh input x n"
          using renderFileData_fst_indep [of L d input emptyWorld ?w2] r Inr Some
          by (simp add: renders_def g)
        have "forTreeNodes L gh input rest (acc @ [x]) w3 = (Inr files, w')"
          using Cons.prems step Inr Some by simp
        then obtain new where "files = (acc @ [x]) @ new"
          "list_all2 (renders L gh input) new
             (filter (\<lambda>n. selected input n \<and> hasContent gh input n) rest)"
          using Cons.IH by blast
        then show ?thesis using True h rn
          by (intro exI [of _ "x # new"]) simp
      qed
    qed
  qed
qed

lemma forTreeNodes_fst_indep:
  "fst (forTreeNodes L gh input tree acc w) = fst (forTreeNodes L gh input tree acc w')"
proof (induction tree arbitrary: acc w w')
  case Nil
  show ?case by simp
next
  case (Cons n rest)
  show ?case
  proof (cases "selected input n")
    case False
    then show ?thesis using Cons.IH [of acc w w'] by simp
  next
    case True
    show ?thesis
    proof (cases "getContent gh (templateRepoName input) (repoOwner input) (nodePath n)")
      case (Inl e)
      then show ?thesis using True by (simp add: Let_def)
    next
      case (Inr sd)
      obtain status d where sd: "sd = (status, d)" by (cases sd) auto
      let ?v = "\<lambda>w. console_debug
                 (Str (''[getTemplateFiles] Template File Content Status: '' @ decimal status))
                 (send (GetContent (templateRepoName input) (repoOwner input) (nodePath n)) w)"
      obtain r1 u1 where r1: "renderFileData L d input (?v w) = (r1, u1)"
        by (cases "renderFileData L d input (?v w)") auto
      obtain r2 u2 where r2: "renderFileData L d input (?v w') = (r2, u2)"
        by (cases "renderFileData L d input (?v w')") auto
      have eq: "r1 = r2"
        using renderFileData_fst_indep [of L d input "?v w" "?v w'"] r1 r2 by simp
      show ?thesis
        using True Inr sd r1 r2 eq Cons.IH
        by (auto simp: Let_def split: sum.splits option.splits)
    qed
  qed
qed

lemma forTreeNodes_fst_Cons:
  "fst (forTreeNodes L gh input (n # rest) acc w) =
     (if selected input n then
        (case fetch gh input n of
           Inl e \<Rightarrow> Inl e
         | Inr (status, d) \<Rightarrow>
             if status \<noteq> 200 then Inl (Error (''Template file not found: '' @ nodePath n))
             else
               (case fst (renderFileData L d input emptyWorld) of
                  Inl e \<Rightarrow> Inl e
                | Inr None \<Rightarrow> fst (forTreeNodes L gh input rest acc emptyWorld)
                | Inr (Some r) \<Rightarrow> fst (forTreeNodes L gh input rest (acc @ [r]) emptyWorld)))
      else fst (forTreeNodes L gh input rest acc emptyWorld))"
proof (cases "selected input n")
  case False
  then show ?thesis using forTreeNodes_fst_indep [of L gh input rest acc w emptyWorld] by simp
next
  case True
  show ?thesis
  proof (cases "fetch gh input n")
    case (Inl e)
    then show ?thesis using True by (simp add: fetch_def Let_def)
  next
    case (Inr sd)
    obtain status d where sd: "sd = (status, d)" by (cases sd) auto
    let ?w2 = "console_debug
                 (Str (''[getTemplateFiles] Template File Content Status: '' @ decimal status))
                 (send (GetContent (templateRepoName input) (repoOwner input) (nodePath n)) w)"
    obtain r1 u1 where r1: "renderFileData L d input ?w2 = (r1, u1)"
      by (cases "renderFileData L d input ?w2") auto
    have eq: "fst (renderFileData L d input emptyWorld) = r1"
      using renderFileData_fst_indep [of L d input emptyWorld ?w2] r1 by simp
    show ?thesis
      using True Inr sd r1 eq
        forTreeNodes_fst_indep [of L gh input rest _ u1 emptyWorld]
      by (auto simp: fetch_def Let_def split: sum.splits option.splits)
  qed
qed

lemma getTemplateFiles_try_fst:
  "fst (getTemplateFiles_try L gh input w) =
     (case getTree gh (templateRepoName input) (repoOwner input) of
        Inl e \<Rightarrow> Inl e
      | Inr (status, tree) \<Rightarrow>
          if status \<noteq> 200 then Inl (Error ''Template file tree(s) not found'')
          else fst (forTreeNodes L gh input tree [] emptyWorld))"
  using forTreeNodes_fst_indep [of L gh input _ "[]" _ emptyWorld]
  by (auto simp: getTemplateFiles_try_def Let_def split: sum.splits)

lemma sample_selected:
  "selected sampleInput (sampleNode t p) = (t = ''blob'' \<and> p \<noteq> [] \<and> prefix ''bun/'' p)"
  by (simp add: selected_def sampleNode_def sampleInput_def truthy_def startsWith_def
      toLowerCase_def toLowerChar_def)

lemma sample_fetch:
  "fetch sampleOctokit sampleInput (sampleNode t p) =
     (case map_of sampleFiles p of
        Some d \<Rightarrow> Inr (200, d)
      | None \<Rightarrow> Inl (Thrown ''Not Found''))"
  by (simp add: fetch_def sampleOctokit_def nodePath_def sampleNode_def)

lemma sample_renderings:
  "fst (renderFileData sampleLibs (sampleFile ''bun/README.njk'' (Some ''IyB7eyByZXBvTmFtZSB9fQ==''))
          sampleInput emptyWorld) = Inr (Some \<lparr>path = ''bun/README.md'', content = ''# foo''\<rparr>)"
  "fst (renderFileData sampleLibs (sampleFile ''bun/package.njk'' (Some ''bmFtZSA9IHt7IHJlcG9OYW1lIH19''))
          sampleInput emptyWorld) = Inr (Some \<lparr>path = ''bun/package.json'', content = ''name = foo''\<rparr>)"
  "fst (renderFileData sampleLibs (sampleFile ''bun/other.njk'' (Some ''IyBvdGhlciB7eyByZXBvTmFtZSB9fQ==''))
          sampleInput emptyWorld) = Inr (Some \<lparr>path = ''bun/other.njk'', content = ''# other foo''\<rparr>)"
  "fst (renderFileData sampleLibs (sampleFile ''bun/src/index.ts'' (Some ''Y29uc29sZS5sb2coMSk=''))
          sampleInput emptyWorld) = Inr (Some \<lparr>path = ''bun/src/index.ts'', content = ''console.log(1)''\<rparr>)"
  "fst (renderFileData sampleLibs (sampleFile ''bun/LICENSE'' (Some ''TUlU''))
          sampleInput emptyWorld) = Inr (Some \<lparr>path = ''bun/LICENSE'', content = ''MIT''\<rparr>)"
  "fst (renderFileData sampleLibs (sampleFile ''bun/.gitkeep'' (Some []))
          sampleInput emptyWorld) = Inr None"
  "fst (renderFileData sampleLibs (sampleFile ''bun/link'' None)
          sampleInput emptyWorld) = Inr None"
  by code_simp+

lemma sample_loop:
  "fst (forTreeNodes sampleLibs sampleOctokit sampleInput sampleTree [] emptyWorld) =
     Inr sampleRendered"
  unfolding sampleTree_def
  by (simp add: forTreeNodes_fst_Cons sample_selected sample_fetch sampleFiles_def
      sample_renderings sampleRendered_def del: forTreeNodes.simps(2))

lemma sample_try:
  "fst (getTemplateFiles_try sampleLibs sampleOctokit sampleInput emptyWorld) = Inr sampleRendered"
proof -
  have "getTree sampleOctokit (templateRepoName sampleInput) (repoOwner sampleInput) =
          Inr (200, sampleTree)"
    by (simp add: sampleOctokit_def)
  then show ?thesis by (simp add: getTemplateFiles_try_fst sample_loop)
qed

lemma sample_filter:
  "filter (\<lambda>n. selected sampleInput n \<and> hasContent sampleOctokit sampleInput n) sampleTree =
     [sampleNode ''blob'' ''bun/README.njk'',
      sampleNode ''blob'' ''bun/package.njk'',
      sampleNode ''blob'' ''bun/other.njk'',
      sampleNode ''blob'' ''bun/src/index.ts'',
      sampleNode ''blob'' ''bun/LICENSE'']"
  by code_simp

text \<open>
  C5, as the code has it. When the \<open>try\<close> block of \<open>getTemplateFiles\<close> ends normally, the
  files returned are, in the order of the tree listing, the renderings of exactly those
  tree nodes whose type is \<open>blob\<close>, whose path lies under the lower-cased repository
  type followed by \<open>/\<close>, and whose content request succeeded with a content. The mode
  of a node is never read: a node that is selected and served stays so under any other
  mode, that of a symbolic link included.
\<close>

theorem getTemplateFiles_entries:
  assumes "getTree gh (templateRepoName input) (repoOwner input) = Inr (status, tree)"
    and "getTemplateFiles_try L gh input w = (Inr files, w')"
  shows "fst (getTemplateFiles L gh input w) = files \<and>
         list_all2 (renders L gh input) files
           (filter (\<lambda>n. selected input n \<and> hasContent gh input n) tree) \<and>
         list_all
           (\<lambda>n. node_type n = Some ''blob'' \<and>
                startsWith (nodePath n) (toLowerCase (repoType input) @ ''/'') \<and>
                selected input (n\<lparr>node_mode := m\<rparr>) \<and>
                hasContent gh input (n\<lparr>node_mode := m\<rparr>))
           (filter (\<lambda>n. selected input n \<and> hasContent gh input n) tree)"
proof -
  have "status = 200"
    using assms by (auto simp: getTemplateFiles_try_def Let_def split: if_splits)
  then obtain w1 where "forTreeNodes L gh input tree [] w1 = (Inr files, w')"
    using assms by (auto simp: getTemplateFiles_try_def Let_def)
  then have a: "list_all2 (renders L gh input) files
                  (filter (\<lambda>n. selected input n \<and> hasContent gh input n) tree)"
    using forTreeNodes_result by fastforce
  have b: "list_all
             (\<lambda>n. node_type n = Some ''blob'' \<and>
                  startsWith (nodePath n) (toLowerCase (repoType input) @ ''/'') \<and>
                  selected input (n\<lparr>node_mode := m\<rparr>) \<and>
                  hasContent gh input (n\<lparr>node_mode := m\<rparr>))
             (filter (\<lambda>n. selected input n \<and> hasContent gh input n) tree)"
    by (auto simp: list_all_iff selected_def nodePath_def hasContent_def fetch_def
        split: option.splits)
  show ?thesis using assms(2) a b by (simp add: getTemplateFiles_def)
qed

theorem getTemplateFiles_entries_witness:
  "getTree sampleOctokit (templateRepoName sampleInput) (repoOwner sampleInput) =
     Inr (200, sampleTree) \<and>
   getTemplateFiles_try sampleLibs sampleOctokit sampleInput emptyWorld =
     (Inr sampleRendered,
      snd (getTemplateFiles_try sampleLibs sampleOctokit sampleInput emptyWorld)) \<and>
   fst (getTemplateFiles sampleLibs sampleOctokit sampleInput emptyWorld) = sampleRendered \<and>
   list_all2 (renders sampleLibs sampleOctokit sampleInput) sampleRendered
     [sampleNode ''blob'' ''bun/README.njk'',
      sampleNode ''blob'' ''bun/package.njk'',
      sampleNode ''blob'' ''bun/other.njk'',
      sampleNode ''blob'' ''bun/src/index.ts'',
      sampleNode ''blob'' ''bun/LICENSE'']"
proof -
  have t: "getTree sampleOctokit (templateRepoName sampleInput) (repoOwner sampleInput) =
             Inr (200, sampleTree)"
    by (simp add: sampleOctokit_def)
  have r: "getTemplateFiles_try sampleLibs sampleOctokit sampleInput emptyWorld =
             (Inr sampleRendered,
              snd (getTemplateFiles_try sampleLibs sampleOctokit sampleInput emptyWorld))"
    using sample_try
    by (cases "getTemplateFiles_try sampleLibs sampleOctokit sampleInput emptyWorld") simp
  show ?thesis
    using getTemplateFiles_entries [OF t r] t r by (simp add: sample_filter)
qed

text \<open>
  The claim C5 as stated fails where it excludes symbolic links: the one node of this
  tree is a symbolic link (type \<open>blob\<close>, mode \<open>120000\<close>) under \<open>bun/\<close>, its content
  request is served, the \<open>try\<close> block ends normally and the link's target is returned
  as a rendered file.
\<close>

theorem getTemplateFiles_returns_symlink:
  "node_type symlinkNode = Some ''blob'' \<and>
   node_mode symlinkNode = Some ''120000'' \<and>
   getTree symlinkOctokit (templateRepoName sampleInput) (repoOwner sampleInput) =
     Inr (200, [symlinkNode]) \<and>
   fst (getTemplateFiles_try sampleLibs symlinkOctokit sampleInput emptyWorld) =
     Inr [\<lparr>path = ''bun/current'', content = ''MIT''\<rparr>] \<and>
   fst (getTemplateFiles sampleLibs symlinkOctokit sampleInput emptyWorld) =
     [\<lparr>path = ''bun/current'', content = ''MIT''\<rparr>]"
  by code_simp

section \<open>Input resolution and the top level\<close>

lemma sample_getInput: "getInput sampleEnv = Inr sampleInput"
  by code_simp

lemma truthy_iff: "truthy v \<longleftrightarrow> (\<exists>s. v = Some s \<and> s \<noteq> [])"
  by (cases v) (auto simp: truthy_def)

lemma required_truthy: "truthy v \<Longrightarrow> \<exists>s. required v msg = Inr s \<and> v = Some s \<and> s \<noteq> []"
  by (cases v) (auto simp: truthy_def required_def)

lemma required_falsy: "\<not> truthy v \<Longrightarrow> required v msg = Inl (Error msg)"
  by (cases v) (auto simp: truthy_def required_def)

lemma getInput_team:
  assumes "truthy (env ''REPO_NAME'')" and "truthy (env ''REPO_TYPE'')"
    and "truthy (or_else (env ''GITHUB_REPOSITORY_OWNER'') (env ''REPO_OWNER''))"
    and "env ''REPO_TEAM'' = Some t" and "t \<noteq> []"
  shows "\<exists>u. getInput env = Inr u \<and> repoTeam u = RepoTeams_get t \<and>
           repoTopics u = map_option (split CHR '','') (env ''REPO_TOPICS'')"
proof -
  obtain n where n: "required (env ''REPO_NAME'')
      ''REPO_NAME is a required environment variable.'' = Inr n"
    using required_truthy [OF assms(1)] by blast
  obtain ty where ty: "required (env ''REPO_TYPE'')
      ''REPO_TYPE is a required environment variable.'' = Inr ty"
    using required_truthy [OF assms(2)] by blast
  obtain ow where ow: "required (or_else (env ''GITHUB_REPOSITORY_OWNER'') (env ''REPO_OWNER''))
      ''REPO_OWNER is a required environment variable.'' = Inr ow"
    using required_truthy [OF assms(3)] by blast
  have tm: "required (env ''REPO_TEAM'')
      ''REPO_TEAM is a required environment variable.'' = Inr t"
    using assms(4,5) by (simp add: required_def)
  show ?thesis
    unfolding getInput_def Let_def n ty ow tm by simp
qed

lemma RepoTeams_get_unknown:
  assumes "t \<notin> set (map fst RepoTeams)"
  shows "RepoTeams_get t = (if t \<in> set ObjectPrototypeKeys then Inherited t else Undefined)"
proof -
  have "map_of RepoTeams t = None"
    using assms by (simp add: map_of_eq_None_iff)
  then show ?thesis by (simp add: RepoTeams_get_def)
qed

lemma RepoTeams_get_table:
  "list_all (\<lambda>(t, team). RepoTeams_get t = Team team \<and> name team = t) RepoTeams"
  by code_simp

lemma RepoTeams_get_known:
  assumes "(t, team) \<in> set RepoTeams"
  shows "RepoTeams_get t = Team team \<and> name team = t"
  using RepoTeams_get_table assms unfolding list_all_iff by blast

lemma run_TypeError:
  assumes "truthy (or_else (env ''GITHUB_TOKEN'') (env ''GH_PAT''))"
    and "getInput env = Inr u" and "repoTeam u = Undefined"
  shows "run L gh env =
           \<lparr>final =
              \<lparr>console =
                 [(ConsoleError,
                   Str (red L ''[ERROR][main] Error caught when creating and initializing repo'')),
                  (ConsoleError, Exn TypeError)],
               calls = []\<rparr>,
            uncaught = None,
            exitCode = 0\<rparr>"
  using assms
  by (simp add: run_def main_try_def repoTeam_name_def console_error_def emptyWorld_def)

text \<open>
  C8, as the code has it. \<open>getInput\<close> checks that \<open>REPO_TEAM\<close> is set and not empty, and
  nothing more. For a value that is not one of the team names it still returns a
  request; its team is the result of the property read, which is not a team record:
  a member inherited from \<open>Object.prototype\<close> when the value names one, and \<open>undefined\<close>
  otherwise. In the latter case the run sends no request all the same: the first log
  message reads the name of the team, and the \<open>TypeError\<close> goes to the top-level
  \<open>catch\<close>, which writes it to the console.
\<close>

theorem getInput_unknown_team:
  assumes "truthy (or_else (env ''GITHUB_TOKEN'') (env ''GH_PAT''))"
    and "truthy (env ''REPO_NAME'')" and "truthy (env ''REPO_TYPE'')"
    and "truthy (or_else (env ''GITHUB_REPOSITORY_OWNER'') (env ''REPO_OWNER''))"
    and "env ''REPO_TEAM'' = Some t" and "t \<noteq> []" and "t \<notin> set (map fst RepoTeams)"
  shows "\<exists>u. getInput env = Inr u \<and>
           repoTeam u = (if t \<in> set ObjectPrototypeKeys then Inherited t else Undefined) \<and>
           (t \<notin> set ObjectPrototypeKeys \<longrightarrow>
              calls (final (run L gh env)) = [] \<and>
              console (final (run L gh env)) =
                [(ConsoleError,
                  Str (red L ''[ERROR][main] Error caught when creating and initializing repo'')),
                 (ConsoleError, Exn TypeError)])"
proof -
  obtain u where u: "getInput env = Inr u" "repoTeam u = RepoTeams_get t"
    using getInput_team [OF assms(2,3,4,5,6)] by blast
  have k: "repoTeam u = (if t \<in> set ObjectPrototypeKeys then Inherited t else Undefined)"
    using u(2) RepoTeams_get_unknown [OF assms(7)] by simp
  show ?thesis
  proof (cases "t \<in> set ObjectPrototypeKeys")
    case True
    then show ?thesis using u(1) k by simp
  next
    case False
    then have "repoTeam u = Undefined" using k by simp
    then show ?thesis
      using run_TypeError [OF assms(1) u(1), of L gh] u(1) k False by simp
  qed
qed


theorem getInput_unknown_team_witness:
  "truthy (or_else ((sampleEnv(''REPO_TEAM'' \<mapsto> ''Marketing'')) ''GITHUB_TOKEN'')
             ((sampleEnv(''REPO_TEAM'' \<mapsto> ''Marketing'')) ''GH_PAT'')) \<and>
   truthy ((sampleEnv(''REPO_TEAM'' \<mapsto> ''Marketing'')) ''REPO_NAME'') \<and>
   truthy ((sampleEnv(''REPO_TEAM'' \<mapsto> ''Marketing'')) ''REPO_TYPE'') \<and>
   truthy (or_else ((sampleEnv(''REPO_TEAM'' \<mapsto> ''Marketing'')) ''GITHUB_REPOSITORY_OWNER'')
             ((sampleEnv(''REPO_TEAM'' \<mapsto> ''Marketing'')) ''REPO_OWNER'')) \<and>
   (sampleEnv(''REPO_TEAM'' \<mapsto> ''Marketing'')) ''REPO_TEAM'' = Some ''Marketing'' \<and>
   ''Marketing'' \<noteq> [] \<and>
   ''Marketing'' \<notin> set (map fst RepoTeams) \<and>
   ''Marketing'' \<notin> set ObjectPrototypeKeys \<and>
   (\<exists>u. getInput (sampleEnv(''REPO_TEAM'' \<mapsto> ''Marketing'')) = Inr u \<and>
        repoTeam u = Undefined) \<and>
   calls (final (run sampleLibs sampleOctokit (sampleEnv(''REPO_TEAM'' \<mapsto> ''Marketing'')))) = [] \<and>
   console (final (run sampleLibs sampleOctokit (sampleEnv(''REPO_TEAM'' \<mapsto> ''Marketing'')))) =
     [(ConsoleError, Str ''[ERROR][main] Error caught when creating and initializing repo''),
      (ConsoleError, Exn TypeError)]"
proof -
  let ?env = "sampleEnv(''REPO_TEAM'' \<mapsto> ''Marketing'')"
  have a: "truthy (or_else (?env ''GITHUB_TOKEN'') (?env ''GH_PAT''))"
    and b: "truthy (?env ''REPO_NAME'')"
    and c: "truthy (?env ''REPO_TYPE'')"
    and d: "truthy (or_else (?env ''GITHUB_REPOSITORY_OWNER'') (?env ''REPO_OWNER''))"
    and e: "?env ''REPO_TEAM'' = Some ''Marketing''"
    by (simp_all add: sampleEnv_def truthy_def or_else_def)
  have f: "''Marketing'' \<noteq> []" by simp
  have g: "''Marketing'' \<notin> set (map fst RepoTeams)"
    by (simp add: RepoTeams_def)
  have h: "''Marketing'' \<notin> set ObjectPrototypeKeys"
    by (simp add: ObjectPrototypeKeys_def)
  have r: "red sampleLibs ''[ERROR][main] Error caught when creating and initializing repo'' =
             ''[ERROR][main] Error caught when creating and initializing repo''"
    by (simp add: sampleLibs_def)
  obtain u where u: "getInput ?env = Inr u"
    "repoTeam u =
       (if ''Marketing'' \<in> set ObjectPrototypeKeys then Inherited ''Marketing'' else Undefined)"
    "''Marketing'' \<notin> set ObjectPrototypeKeys \<longrightarrow>
       calls (final (run sampleLibs sampleOctokit ?env)) = [] \<and>
       console (final (run sampleLibs sampleOctokit ?env)) =
         [(ConsoleError,
           Str (red sampleLibs ''[ERROR][main] Error caught when creating and initializing repo'')),
          (ConsoleError, Exn TypeError)]"
    using getInput_unknown_team [OF a b c d e f g, of sampleLibs sampleOctokit] by blast
  have u2: "repoTeam u = Undefined" using u(2) h by (simp only: if_False)
  have u3: "calls (final (run sampleLibs sampleOctokit ?env)) = []"
    and u4: "console (final (run sampleLibs sampleOctokit ?env)) =
         [(ConsoleError,
           Str (red sampleLibs ''[ERROR][main] Error caught when creating and initializing repo'')),
          (ConsoleError, Exn TypeError)]"
    using u(3) h by blast+
  have u5: "console (final (run sampleLibs sampleOctokit ?env)) =
         [(ConsoleError, Str ''[ERROR][main] Error caught when creating and initializing repo''),
          (ConsoleError, Exn TypeError)]"
    using u4 unfolding r .
  show ?thesis using a b c d e f g h u(1) u2 u3 u5 by blast
qed

text \<open>
  The claim C8 as stated fails: \<open>getInput\<close> accepts the team \<open>Marketing\<close> with an
  undefined team, and with the team \<open>constructor\<close> the run goes on to send the creation
  request.
\<close>

theorem getInput_accepts_unknown_team:
  "getInput (sampleEnv(''REPO_TEAM'' \<mapsto> ''Marketing'')) =
     Inr (sampleInput\<lparr>repoTeam := Undefined\<rparr>) \<and>
   getInput (sampleEnv(''REPO_TEAM'' \<mapsto> ''constructor'')) =
     Inr (sampleInput\<lparr>repoTeam := Inherited ''constructor''\<rparr>) \<and>
   calls (final (run sampleLibs failingOctokit (sampleEnv(''REPO_TEAM'' \<mapsto> ''constructor'')))) =
     [CreateInOrg ''foo'' ''liatrio'' None]"
  by code_simp

text \<open>
  C9. A run whose creation request fails: the exception reaches the top-level \<open>catch\<close>,
  which writes it to the console, and the process ends with exit code 0, not with a
  failure.
\<close>

theorem run_swallows_failure:
  "exitCode (run sampleLibs failingOctokit sampleEnv) = 0 \<and>
   uncaught (run sampleLibs failingOctokit sampleEnv) = None \<and>
   calls (final (run sampleLibs failingOctokit sampleEnv)) =
     [CreateInOrg ''foo'' ''liatrio'' None] \<and>
   tl (console (final (run sampleLibs failingOctokit sampleEnv))) =
     [(ConsoleError, Str ''[ERROR][main] Error caught when creating and initializing repo''),
      (ConsoleError, Exn (Thrown ''HttpError''))]"
  by code_simp

lemma run_exitCode:
  "exitCode (run L gh env) =
     (if truthy (or_else (env ''GITHUB_TOKEN'') (env ''GH_PAT'')) then 0 else 1)"
  by (auto simp: run_def Let_def split: prod.splits sum.splits)

section \<open>The requests a run sends\<close>

lemma calls_console:
  "calls (console_debug v w) = calls w"
  "calls (console_log v w) = calls w"
  "calls (console_error v w) = calls w"
  by (simp_all add: console_debug_def console_log_def console_error_def)

lemma calls_send: "calls (send c w) = calls w @ [c]"
  by (simp add: send_def)

lemma renderFileData_calls: "calls (snd (renderFileData L f input w)) = calls w"
  by (auto simp: renderFileData_def Let_def calls_console split: option.splits sum.splits)

lemma forTreeNodes_topics:
  "filter isTopicsCall (calls (snd (forTreeNodes L gh input tree acc w))) =
     filter isTopicsCall (calls w)"
proof (induction tree arbitrary: acc w)
  case Nil
  show ?case by simp
next
  case (Cons n rest)
  show ?case
  proof (cases "selected input n")
    case False
    then show ?thesis using Cons.IH by simp
  next
    case True
    let ?w1 = "send (GetContent (templateRepoName input) (repoOwner input) (nodePath n)) w"
    have w1: "filter isTopicsCall (calls ?w1) = filter isTopicsCall (calls w)"
      by (simp add: calls_send isTopicsCall_def)
    show ?thesis
    proof (cases "getContent gh (templateRepoName input) (repoOwner input) (nodePath n)")
      case (Inl e)
      then show ?thesis using True w1 by (simp add: Let_def)
    next
      case (Inr sd)
      obtain status d where sd: "sd = (status, d)" by (cases sd) auto
      let ?w2 = "console_debug
                   (Str (''[getTemplateFiles] Template File Content Status: '' @ decimal status))
                   ?w1"
      have w2: "filter isTopicsCall (calls ?w2) = filter isTopicsCall (calls w)"
        using w1 by (simp add: calls_console)
      obtain res w3 where r: "renderFileData L d input ?w2 = (res, w3)"
        by (cases "renderFileData L d input ?w2") auto
      have w3: "filter isTopicsCall (calls w3) = filter isTopicsCall (calls w)"
        using renderFileData_calls [of L d input ?w2] r w2 by simp
      show ?thesis
      proof (cases "status = 200")
        case False
        then show ?thesis using True Inr sd w2 by (simp add: Let_def)
      next
        case st: True
        show ?thesis
        proof (cases res)
          case (Inl e)
          then show ?thesis using True Inr sd st r w3 by (simp add: Let_def)
        next
          case res: (Inr opt)
          show ?thesis
            using True Inr sd st r res w3 Cons.IH [of _ w3]
            by (cases opt) (simp_all add: Let_def)
        qed
      qed
    qed
  qed
qed

lemma getTemplateFiles_topics:
  "filter isTopicsCall (calls (snd (getTemplateFiles L gh input w))) =
     filter isTopicsCall (calls w)"
proof -
  have "filter isTopicsCall (calls (snd (getTemplateFiles_try L gh input w))) =
          filter isTopicsCall (calls w)"
    using forTreeNodes_topics [of L gh input]
    by (auto simp: getTemplateFiles_try_def Let_def calls_send calls_console isTopicsCall_def
        split: sum.splits)
  then show ?thesis
    by (auto simp: getTemplateFiles_def calls_console split: prod.splits sum.splits)
qed

lemma forTemplateFiles_topics:
  "filter isTopicsCall (calls (snd (forTemplateFiles L gh u files acc w))) =
     filter isTopicsCall (calls w)"
proof (induction files arbitrary: acc w)
  case Nil
  show ?case by simp
next
  case (Cons f rest)
  show ?case
    using Cons.IH
    by (auto simp: Let_def calls_send calls_console isTopicsCall_def split: sum.splits)
qed

lemma addTemplateFiles_topics:
  "filter isTopicsCall (calls (snd (addTemplateFiles L gh u w))) =
     filter isTopicsCall (calls w)"
proof -
  obtain files w1 where g: "getTemplateFiles L gh u w = (files, w1)"
    by (cases "getTemplateFiles L gh u w") auto
  have w1: "filter isTopicsCall (calls w1) = filter isTopicsCall (calls w)"
    using getTemplateFiles_topics [of L gh u w] g by simp
  obtain res w2 where f: "forTemplateFiles L gh u files [] w1 = (res, w2)"
    by (cases "forTemplateFiles L gh u files [] w1") auto
  have w2: "filter isTopicsCall (calls w2) = filter isTopicsCall (calls w)"
    using forTemplateFiles_topics [of L gh u files "[]" w1] f w1 by simp
  show ?thesis
    using g f w2 by (cases res) (simp_all add: addTemplateFiles_def calls_console)
qed

lemma createRepo_ok:
  assumes "createInOrg gh (repoName u) (repoOwner u) (repoDescription u) = Inr status"
  shows "\<exists>w1. createRepo gh u tn w = (Inr (), w1) \<and>
           calls w1 = calls w @ [CreateInOrg (repoName u) (repoOwner u) (repoDescription u)]"
  using assms by (simp add: createRepo_def Let_def calls_send calls_console)

lemma replaceTopics_skip: "\<not> hasTopics u \<Longrightarrow> replaceTopics gh u w = (Inr (), w)"
  by (simp add: replaceTopics_def)

lemma replaceTopics_calls:
  "hasTopics u \<Longrightarrow>
     calls (snd (replaceTopics gh u w)) =
       calls w @ [ReplaceAllTopics (case repoTopics u of Some ts \<Rightarrow> ts | None \<Rightarrow> [])
                    (repoName u) (repoOwner u)]"
  by (auto simp: replaceTopics_def Let_def calls_send calls_console split: sum.splits)

lemma getInput_topics:
  "getInput env = Inr u \<Longrightarrow> repoTopics u = map_option (split CHR '','') (env ''REPO_TOPICS'')"
  by (auto simp: getInput_def Let_def split: sum.splits)

lemma hasTopics_iff:
  assumes "getInput env = Inr u"
  shows "hasTopics u \<longleftrightarrow> (\<exists>t ts. repoTopics u = Some (t # ts) \<and> t \<noteq> [])"
proof -
  have "repoTopics u \<noteq> Some []"
    using getInput_topics [OF assms] split_not_Nil by (cases "env ''REPO_TOPICS''") auto
  then show ?thesis
    by (auto simp: hasTopics_def split: option.splits list.splits)
qed

lemma no_topics:
  assumes "getInput env = Inr u"
    and "env ''REPO_TOPICS'' = None \<or> env ''REPO_TOPICS'' = Some []"
  shows "\<not> hasTopics u"
  using getInput_topics [OF assms(1)] assms(2) by (auto simp: hasTopics_def)

lemma run_calls:
  "truthy (or_else (env ''GITHUB_TOKEN'') (env ''GH_PAT'')) \<Longrightarrow>
     calls (final (run L gh env)) = calls (snd (main_try L gh env emptyWorld))"
  by (auto simp: run_def Let_def calls_console split: prod.splits sum.splits)

lemma main_try_steps:
  assumes "getInput env = Inr u" and "repoTeam_name (repoTeam u) = Inr tn"
    and "createRepo gh u tn w = (Inr (), w1)"
  shows "main_try L gh env w =
           (case replaceTopics gh u w1 of
              (Inl e, w2) \<Rightarrow> (Inl e, w2)
            | (Inr x, w2) \<Rightarrow> addTemplateFiles L gh u w2)"
  using assms by (simp add: main_try_def)

text \<open>
  C10. In a run that gets as far as the topics step (the token and the input are there,
  the team is not undefined and the creation request returns), the requests that
  replace the topics are: exactly one, with the resolved topics, when the topics are
  defined and the first one is not the empty string, and none otherwise. In particular
  with \<open>REPO_TOPICS\<close> unset or empty no such request is sent, the topics step leaves
  the world as it is, and the \<open>try\<close> block is the creation of the repository followed
  at once by the fetching and writing of the template files.
\<close>

theorem topics_replaced_iff:
  assumes "truthy (or_else (env ''GITHUB_TOKEN'') (env ''GH_PAT''))"
    and "getInput env = Inr u"
    and "repoTeam_name (repoTeam u) = Inr tn"
    and "createInOrg gh (repoName u) (repoOwner u) (repoDescription u) = Inr status"
  shows "filter isTopicsCall (calls (final (run L gh env))) =
           (if hasTopics u then
              [ReplaceAllTopics (case repoTopics u of Some ts \<Rightarrow> ts | None \<Rightarrow> [])
                 (repoName u) (repoOwner u)]
            else []) \<and>
         (hasTopics u \<longleftrightarrow> (\<exists>t ts. repoTopics u = Some (t # ts) \<and> t \<noteq> [])) \<and>
         (env ''REPO_TOPICS'' = None \<or> env ''REPO_TOPICS'' = Some [] \<longrightarrow>
            \<not> hasTopics u \<and>
            main_try L gh env w = addTemplateFiles L gh u (snd (createRepo gh u tn w)))"
proof (intro conjI impI)
  obtain w1 where c: "createRepo gh u tn emptyWorld = (Inr (), w1)"
    and c1: "calls w1 = calls emptyWorld @
               [CreateInOrg (repoName u) (repoOwner u) (repoDescription u)]"
    using createRepo_ok [OF assms(4), of tn emptyWorld] by blast
  have f1: "filter isTopicsCall (calls w1) = []"
    using c1 by (simp add: emptyWorld_def isTopicsCall_def)
  have m: "main_try L gh env emptyWorld =
             (case replaceTopics gh u w1 of
                (Inl e, w2) \<Rightarrow> (Inl e, w2)
              | (Inr x, w2) \<Rightarrow> addTemplateFiles L gh u w2)"
    using main_try_steps [OF assms(2,3) c] .
  obtain res w2 where r: "replaceTopics gh u w1 = (res, w2)"
    by (cases "replaceTopics gh u w1") auto
  have f2: "filter isTopicsCall (calls w2) =
              (if hasTopics u then
                 [ReplaceAllTopics (case repoTopics u of Some ts \<Rightarrow> ts | None \<Rightarrow> [])
                    (repoName u) (repoOwner u)]
               else [])"
  proof (cases "hasTopics u")
    case True
    then show ?thesis
      using replaceTopics_calls [OF True, of gh w1] r f1 by (simp add: isTopicsCall_def)
  next
    case False
    then show ?thesis using replaceTopics_skip [OF False, of gh w1] r f1 by simp
  qed
  have "filter isTopicsCall (calls (snd (main_try L gh env emptyWorld))) =
          filter isTopicsCall (calls w2)"
    unfolding m r using addTemplateFiles_topics [of L gh u w2] by (cases res) simp_all
  then show "filter isTopicsCall (calls (final (run L gh env))) =
           (if hasTopics u then
              [ReplaceAllTopics (case repoTopics u of Some ts \<Rightarrow> ts | None \<Rightarrow> [])
                 (repoName u) (repoOwner u)]
            else [])"
    using run_calls [OF assms(1), of L gh] f2 by simp
next
  show "hasTopics u \<longleftrightarrow> (\<exists>t ts. repoTopics u = Some (t # ts) \<and> t \<noteq> [])"
    using hasTopics_iff [OF assms(2)] .
next
  assume t: "env ''REPO_TOPICS'' = None \<or> env ''REPO_TOPICS'' = Some []"
  show "\<not> hasTopics u" using no_topics [OF assms(2) t] .
next
  assume t: "env ''REPO_TOPICS'' = None \<or> env ''REPO_TOPICS'' = Some []"
  have n: "\<not> hasTopics u" using no_topics [OF assms(2) t] .
  obtain w1 where c: "createRepo gh u tn w = (Inr (), w1)"
    using createRepo_ok [OF assms(4), of tn w] by blast
  show "main_try L gh env w = addTemplateFiles L gh u (snd (createRepo gh u tn w))"
    using main_try_steps [OF assms(2,3) c, of L] replaceTopics_skip [OF n, of gh w1] c by simp
qed

theorem topics_replaced_iff_witness:
  "truthy (or_else (sampleEnv ''GITHUB_TOKEN'') (sampleEnv ''GH_PAT'')) \<and>
   getInput sampleEnv = Inr sampleInput \<and>
   repoTeam_name (repoTeam sampleInput) = Inr (Some ''Platform'') \<and>
   createInOrg sampleOctokit (repoName sampleInput) (repoOwner sampleInput)
     (repoDescription sampleInput) = Inr 201 \<and>
   hasTopics sampleInput \<and>
   filter isTopicsCall (calls (final (run sampleLibs sampleOctokit sampleEnv))) =
     [ReplaceAllTopics [''api'', ''bun''] ''foo'' ''liatrio''] \<and>
   truthy (or_else ((sampleEnv(''REPO_TOPICS'' \<mapsto> [])) ''GITHUB_TOKEN'')
             ((sampleEnv(''REPO_TOPICS'' \<mapsto> [])) ''GH_PAT'')) \<and>
   getInput (sampleEnv(''REPO_TOPICS'' \<mapsto> [])) = Inr (sampleInput\<lparr>repoTopics := Some [[]]\<rparr>) \<and>
   (sampleEnv(''REPO_TOPICS'' \<mapsto> [])) ''REPO_TOPICS'' = Some [] \<and>
   \<not> hasTopics (sampleInput\<lparr>repoTopics := Some [[]]\<rparr>) \<and>
   filter isTopicsCall
     (calls (final (run sampleLibs sampleOctokit (sampleEnv(''REPO_TOPICS'' \<mapsto> []))))) = [] \<and>
   main_try sampleLibs sampleOctokit (sampleEnv(''REPO_TOPICS'' \<mapsto> [])) emptyWorld =
     addTemplateFiles sampleLibs sampleOctokit (sampleInput\<lparr>repoTopics := Some [[]]\<rparr>)
       (snd (createRepo sampleOctokit (sampleInput\<lparr>repoTopics := Some [[]]\<rparr>)
               (Some ''Platform'') emptyWorld))"
proof -
  let ?env = "sampleEnv(''REPO_TOPICS'' \<mapsto> [])"
  let ?u = "sampleInput\<lparr>repoTopics := Some [[]]\<rparr>"
  have a: "truthy (or_else (sampleEnv ''GITHUB_TOKEN'') (sampleEnv ''GH_PAT''))"
    by (simp add: sampleEnv_def truthy_def or_else_def)
  have b: "getInput sampleEnv = Inr sampleInput" by (rule sample_getInput)
  have c: "repoTeam_name (repoTeam sampleInput) = Inr (Some ''Platform'')"
    by (simp add: sampleInput_def repoTeam_name_def)
  have d: "createInOrg sampleOctokit (repoName sampleInput) (repoOwner sampleInput)
             (repoDescription sampleInput) = Inr 201"
    by (simp add: sampleOctokit_def)
  have h: "hasTopics sampleInput" by (simp add: hasTopics_def sampleInput_def)
  have n: "(case repoTopics sampleInput of Some ts \<Rightarrow> ts | None \<Rightarrow> []) = [''api'', ''bun'']"
    "repoName sampleInput = ''foo''" "repoOwner sampleInput = ''liatrio''"
    by (simp_all add: sampleInput_def)
  have one: "filter isTopicsCall (calls (final (run sampleLibs sampleOctokit sampleEnv))) =
               [ReplaceAllTopics [''api'', ''bun''] ''foo'' ''liatrio'']"
    using topics_replaced_iff [OF a b c d, of sampleLibs emptyWorld] h n by simp
  have a': "truthy (or_else (?env ''GITHUB_TOKEN'') (?env ''GH_PAT''))"
    by (simp add: sampleEnv_def truthy_def or_else_def)
  have b': "getInput ?env = Inr ?u" by code_simp
  have c': "repoTeam_name (repoTeam ?u) = Inr (Some ''Platform'')"
    by (simp add: sampleInput_def repoTeam_name_def)
  have d': "createInOrg sampleOctokit (repoName ?u) (repoOwner ?u) (repoDescription ?u) = Inr 201"
    by (simp add: sampleOctokit_def)
  have e': "?env ''REPO_TOPICS'' = Some []" by simp
  have h': "\<not> hasTopics ?u" by (simp add: hasTopics_def)
  note two = topics_replaced_iff [OF a' b' c' d', of sampleLibs emptyWorld]
  have two1: "filter isTopicsCall (calls (final (run sampleLibs sampleOctokit ?env))) = []"
    using two h' by (simp only: if_False)
  have two2: "main_try sampleLibs sampleOctokit ?env emptyWorld =
     addTemplateFiles sampleLibs sampleOctokit ?u
       (snd (createRepo sampleOctokit ?u (Some ''Platform'') emptyWorld))"
    using two e' by blast
  show ?thesis using a b c d h one a' b' e' h' two1 two2 by blast
qed

end
